theory Spec2Isabelle
  imports Main
begin

section \<open>JavaScript strings\<close>

text \<open>
  A JavaScript string is modelled as a \<^typ>\<open>string\<close>: a list of code units, of which the
  type \<^typ>\<open>char\<close> offers the first 256. The three search methods of
  \<^verbatim>\<open>String.prototype\<close> that the sources use are written out by recursion.
\<close>

fun startsWith :: "string \<Rightarrow> string \<Rightarrow> bool" where
  "startsWith s [] = True"
| "startsWith [] (p # ps) = False"
| "startsWith (c # cs) (p # ps) = (c = p \<and> startsWith cs ps)"

fun includes_str :: "string \<Rightarrow> string \<Rightarrow> bool" where
  "includes_str [] p = startsWith [] p"
| "includes_str (c # cs) p = (startsWith (c # cs) p \<or> includes_str cs p)"

definition endsWith :: "string \<Rightarrow> string \<Rightarrow> bool" where
  "endsWith s p = startsWith (rev s) (rev p)"

section \<open>File categories (src/core/openclaw.ts)\<close>

datatype FileCategory =
  Config | Secrets | Workspace | Sessions | Memory | Skills | Agents | Settings | Other

definition all_categories :: "FileCategory list" where
  "all_categories =
     [Config, Secrets, Workspace, Sessions, Memory, Skills, Agents, Settings, Other]"

text \<open>
  The regular expression \<^verbatim>\<open>/^agents\/[^/]+\/agent\//\<close>: the literal \<^verbatim>\<open>agents/\<close>, a
  non-empty run of characters other than the slash, and the literal \<^verbatim>\<open>/agent/\<close>. The
  run cannot contain a slash, so only the longest run can be followed by one.
\<close>

definition matches_agent_dir :: "string \<Rightarrow> bool" where
  "matches_agent_dir p =
     (startsWith p ''agents/'' \<and>
      (let r = drop 7 p in
         takeWhile (\<lambda>c. c \<noteq> CHR ''/'') r \<noteq> [] \<and>
         startsWith (dropWhile (\<lambda>c. c \<noteq> CHR ''/'') r) ''/agent/''))"

definition categorizeFile :: "string \<Rightarrow> FileCategory" where
  "categorizeFile relativePath =
     (if relativePath = ''openclaw.json'' \<or>
         relativePath = ''openclaw.json5'' \<or>
         (startsWith relativePath ''openclaw.'' \<and> \<not> includes_str relativePath ''/'')
      then Config
      else if relativePath = ''.env'' \<or>
         startsWith relativePath ''credentials/'' \<or>
         startsWith relativePath ''auth/''
      then Secrets
      else if startsWith relativePath ''workspace/'' \<or> startsWith relativePath ''workspace-''
      then Workspace
      else if startsWith relativePath ''skills/''
      then Skills
      else if includes_str relativePath ''/sessions/'' \<and>
         (endsWith relativePath ''.jsonl'' \<or> endsWith relativePath ''sessions.json'')
      then Sessions
      else if endsWith relativePath ''.sqlite'' \<and>
         (startsWith relativePath ''memory/'' \<or> includes_str relativePath ''memory'')
      then Memory
      else if matches_agent_dir relativePath
      then Agents
      else if startsWith relativePath ''settings/''
      then Settings
      else Other)"

text \<open>
  The rules of \<^const>\<open>categorizeFile\<close> as an ordered table, and the reading "the first rule
  that matches decides, and no match is \<^const>\<open>Other\<close>".
\<close>

definition category_rules :: "(FileCategory \<times> (string \<Rightarrow> bool)) list" where
  "category_rules =
     [(Config, \<lambda>p. p = ''openclaw.json'' \<or> p = ''openclaw.json5'' \<or>
                    (startsWith p ''openclaw.'' \<and> \<not> includes_str p ''/'')),
      (Secrets, \<lambda>p. p = ''.env'' \<or> startsWith p ''credentials/'' \<or> startsWith p ''auth/''),
      (Workspace, \<lambda>p. startsWith p ''workspace/'' \<or> startsWith p ''workspace-''),
      (Skills, \<lambda>p. startsWith p ''skills/''),
      (Sessions, \<lambda>p. includes_str p ''/sessions/'' \<and>
                    (endsWith p ''.jsonl'' \<or> endsWith p ''sessions.json'')),
      (Memory, \<lambda>p. endsWith p ''.sqlite'' \<and>
                    (startsWith p ''memory/'' \<or> includes_str p ''memory'')),
      (Agents, matches_agent_dir),
      (Settings, \<lambda>p. startsWith p ''settings/'')]"

fun first_match :: "(FileCategory \<times> (string \<Rightarrow> bool)) list \<Rightarrow> string \<Rightarrow> FileCategory" where
  "first_match [] p = Other"
| "first_match ((c, r) # rs) p = (if r p then c else first_match rs p)"

section \<open>Errors, the platform and the world\<close>

text \<open>
  Every exception of the sources is a value. The constructors name the place that raises:
  \<^verbatim>\<open>new URL\<close> on an unusable endpoint, the two \<^verbatim>\<open>throw\<close> statements of
  \<^verbatim>\<open>getStorageEndpoint\<close>, a rejected \<^verbatim>\<open>fetch\<close>, and the \<^verbatim>\<open>throw\<close> that ends
  \<^verbatim>\<open>createBucket\<close> (bucket name, status code, response body).
\<close>

datatype error =
    InvalidURL
  | EndpointError string
  | NetworkError
  | CreateBucketFailed string nat string

record parsed_url =
  url_host :: string
  url_pathname :: string
  url_search :: string
  url_href :: string

record http_request =
  req_method :: string
  req_url :: string
  req_headers :: "(string \<times> string) list"

datatype fetch_result = Rejected | Response nat string

text \<open>
  What the runtime provides and the repository does not define: the two digests of
  \<^verbatim>\<open>node:crypto\<close> (\<^verbatim>\<open>sha256_hex\<close> is the hexadecimal digest of a string, \<^verbatim>\<open>hmac_sha256\<close>
  the raw keyed digest), the WHATWG URL parser (\<open>None\<close> when \<^verbatim>\<open>new URL\<close> throws),
  \<^verbatim>\<open>Date.prototype.toISOString\<close>, the system clock (the value of its \<open>n\<close>-th reading, in
  milliseconds) and the network (the outcome of the \<open>n\<close>-th \<^verbatim>\<open>fetch\<close>). They are parameters of
  the model; the theorems hold for all of them.
\<close>

record platform =
  sha256_hex :: "string \<Rightarrow> string"
  hmac_sha256 :: "string \<Rightarrow> string \<Rightarrow> string"
  url_parse :: "string \<Rightarrow> string \<Rightarrow> parsed_url option"
  toISOString :: "int \<Rightarrow> string"
  clock :: "nat \<Rightarrow> int"
  fetch :: "nat \<Rightarrow> http_request \<Rightarrow> fetch_result"

text \<open>The state the operations change: how often the clock was read, and the requests sent.\<close>

record world =
  clock_reads :: nat
  sent :: "http_request list"

definition do_fetch :: "platform \<Rightarrow> http_request \<Rightarrow> world \<Rightarrow> fetch_result \<times> world" where
  "do_fetch P req w = (fetch P (length (sent w)) req, w\<lparr>sent := sent w @ [req]\<rparr>)"

section \<open>Request signing (src/core/s3.ts)\<close>

definition hex_digit :: "nat \<Rightarrow> char" where
  "hex_digit n = ''0123456789abcdef'' ! (n mod 16)"

definition hex :: "string \<Rightarrow> string" where
  "hex bytes = concat (map (\<lambda>c. [hex_digit (of_char c div 16), hex_digit (of_char c)]) bytes)"

fun join :: "string \<Rightarrow> string list \<Rightarrow> string" where
  "join sep [] = []"
| "join sep [x] = x"
| "join sep (x # y # ys) = x @ sep @ join sep (y # ys)"

definition is_digit :: "char \<Rightarrow> bool" where
  "is_digit c = (c \<in> set ''0123456789'')"

text \<open>\<^verbatim>\<open>.replace(/\.\d+/, "")\<close>: the first dot that a digit follows goes, with all its digits.\<close>

fun drop_fraction :: "string \<Rightarrow> string" where
  "drop_fraction [] = []"
| "drop_fraction (c # cs) =
     (if c = CHR ''.'' \<and> (case cs of [] \<Rightarrow> False | d # _ \<Rightarrow> is_digit d)
      then dropWhile is_digit cs
      else c # drop_fraction cs)"

definition amz_date :: "platform \<Rightarrow> int \<Rightarrow> string" where
  "amz_date P now =
     drop_fraction (filter (\<lambda>c. c \<noteq> CHR ''-'' \<and> c \<noteq> CHR '':'') (toISOString P now))"

definition getSignatureKey :: "platform \<Rightarrow> string \<Rightarrow> string \<Rightarrow> string \<Rightarrow> string \<Rightarrow> string" where
  "getSignatureKey P secretKey date region service =
     (let kDate = hmac_sha256 P (''AWS4'' @ secretKey) date;
          kRegion = hmac_sha256 P kDate region;
          kService = hmac_sha256 P kRegion service
      in hmac_sha256 P kService ''aws4_request'')"

record sign_opts =
  s_method :: string
  s_endpoint :: string
  s_path :: string
  s_body :: string
  s_accessKeyId :: string
  s_secretAccessKey :: string
  s_region :: string

record SignedRequest =
  sr_url :: string
  sr_headers :: "(string \<times> string) list"

text \<open>
  The body of \<^verbatim>\<open>signRequest\<close> after \<^verbatim>\<open>new Date()\<close>, with the parsed URL and the
  timestamp string \<^verbatim>\<open>amzDate\<close> in hand.
\<close>

definition sign_with :: "platform \<Rightarrow> sign_opts \<Rightarrow> parsed_url \<Rightarrow> string \<Rightarrow> SignedRequest" where
  "sign_with P opts u amzDate =
     (let host = url_host u;
          dateStamp = take 8 amzDate;
          payloadHash = sha256_hex P (s_body opts);
          canonicalHeaders = ''host:'' @ host @ [CHR 0x0A] @
            ''x-amz-content-sha256:'' @ payloadHash @ [CHR 0x0A] @
            ''x-amz-date:'' @ amzDate @ [CHR 0x0A];
          signedHeaders = ''host;x-amz-content-sha256;x-amz-date'';
          canonicalRequest = join [CHR 0x0A]
            [s_method opts, url_pathname u,
             (case url_search u of [] \<Rightarrow> [] | c # cs \<Rightarrow> if c = CHR ''?'' then cs else c # cs),
             canonicalHeaders, signedHeaders, payloadHash];
          credentialScope = dateStamp @ ''/'' @ s_region opts @ ''/s3/aws4_request'';
          stringToSign = join [CHR 0x0A]
            [''AWS4-HMAC-SHA256'', amzDate, credentialScope, sha256_hex P canonicalRequest];
          signingKey = getSignatureKey P (s_secretAccessKey opts) dateStamp (s_region opts) ''s3'';
          signature = hex (hmac_sha256 P signingKey stringToSign);
          authorization = ''AWS4-HMAC-SHA256 Credential='' @ s_accessKeyId opts @ ''/'' @
            credentialScope @ '', SignedHeaders='' @ signedHeaders @
            '', Signature='' @ signature
      in \<lparr>sr_url = url_href u,
          sr_headers = [(''Host'', host), (''x-amz-date'', amzDate),
                        (''x-amz-content-sha256'', payloadHash),
                        (''Authorization'', authorization)]\<rparr>)"

text \<open>
  \<^verbatim>\<open>signRequest\<close>: \<^verbatim>\<open>new URL(path, endpoint)\<close> comes first and may throw; then the clock is
  read, once.
\<close>

definition signRequest :: "platform \<Rightarrow> sign_opts \<Rightarrow> world \<Rightarrow> (error + SignedRequest) \<times> world" where
  "signRequest P opts w =
     (case url_parse P (s_path opts) (s_endpoint opts) of
        None \<Rightarrow> (Inl InvalidURL, w)
      | Some u \<Rightarrow>
          (let now = clock P (clock_reads w)
           in (Inr (sign_with P opts u (amz_date P now)),
               w\<lparr>clock_reads := Suc (clock_reads w)\<rparr>)))"

section \<open>Storage configuration (src/core/config.ts)\<close>

datatype provider = R2 | S3 | B2 | MinIO

record StorageConfig =
  st_provider :: provider
  st_bucket :: string
  st_accountId :: "string option"
  st_accessKeyId :: string
  st_secretAccessKey :: string
  st_endpoint :: "string option"
  st_region :: "string option"
  st_jurisdiction :: "string option"

text \<open>
  An optional string in a condition: \<^verbatim>\<open>undefined\<close> and the empty string are both falsy.
  \<^verbatim>\<open>x ?? d\<close> replaces \<^verbatim>\<open>undefined\<close> only.
\<close>

fun truthy :: "string option \<Rightarrow> bool" where
  "truthy None = False"
| "truthy (Some s) = (s \<noteq> [])"

fun nullish_or :: "string option \<Rightarrow> string \<Rightarrow> string" where
  "nullish_or None d = d"
| "nullish_or (Some s) d = s"

definition getStorageEndpoint :: "StorageConfig \<Rightarrow> error + string" where
  "getStorageEndpoint storage =
     (if truthy (st_endpoint storage) then Inr (nullish_or (st_endpoint storage) [])
      else case st_provider storage of
        R2 \<Rightarrow>
          if \<not> truthy (st_accountId storage)
          then Inl (EndpointError ''R2 requires an accountId'')
          else
            (let jur = (if truthy (st_jurisdiction storage)
                        then ''.'' @ nullish_or (st_jurisdiction storage) [] else [])
             in Inr (''https://'' @ nullish_or (st_accountId storage) [] @ jur @
                     ''.r2.cloudflarestorage.com''))
      | S3 \<Rightarrow> Inr (''https://s3.'' @ nullish_or (st_region storage) ''us-east-1'' @
                   ''.amazonaws.com'')
      | B2 \<Rightarrow> Inr ''https://s3.us-west-004.backblazeb2.com''
      | MinIO \<Rightarrow> Inl (EndpointError ''MinIO requires a custom endpoint''))"

section \<open>Bucket operations (src/core/s3.ts)\<close>

text \<open>
  The calls of \<^verbatim>\<open>log.debug\<close> are left out: they write a line and change no result.
  \<^verbatim>\<open>bucketExists\<close> derives the endpoint and signs the request before its \<^verbatim>\<open>try\<close> block,
  which holds the \<^verbatim>\<open>fetch\<close> alone.
\<close>

definition bucket_opts :: "string \<Rightarrow> StorageConfig \<Rightarrow> string \<Rightarrow> sign_opts" where
  "bucket_opts method storage endpoint =
     \<lparr>s_method = method, s_endpoint = endpoint, s_path = ''/'' @ st_bucket storage,
      s_body = [], s_accessKeyId = st_accessKeyId storage,
      s_secretAccessKey = st_secretAccessKey storage,
      s_region = nullish_or (st_region storage) ''auto''\<rparr>"

definition bucketExists :: "platform \<Rightarrow> StorageConfig \<Rightarrow> world \<Rightarrow> (error + bool) \<times> world" where
  "bucketExists P storage w =
     (case getStorageEndpoint storage of
        Inl e \<Rightarrow> (Inl e, w)
      | Inr endpoint \<Rightarrow>
          (case signRequest P (bucket_opts ''HEAD'' storage endpoint) w of
             (Inl e, w1) \<Rightarrow> (Inl e, w1)
           | (Inr sr, w1) \<Rightarrow>
               (case do_fetch P \<lparr>req_method = ''HEAD'', req_url = sr_url sr,
                                 req_headers = sr_headers sr\<rparr> w1 of
                  (Response status body, w2) \<Rightarrow> (Inr (status = 200), w2)
                | (Rejected, w2) \<Rightarrow> (Inr False, w2))))"

text \<open>
  \<^verbatim>\<open>createBucket\<close> returns \<^verbatim>\<open>true\<close> for a bucket it created and \<^verbatim>\<open>false\<close> for one
  that exists already and is the caller's. Its \<^verbatim>\<open>fetch\<close> stands in no \<^verbatim>\<open>try\<close> block.
\<close>

definition createBucket :: "platform \<Rightarrow> StorageConfig \<Rightarrow> world \<Rightarrow> (error + bool) \<times> world" where
  "createBucket P storage w =
     (case getStorageEndpoint storage of
        Inl e \<Rightarrow> (Inl e, w)
      | Inr endpoint \<Rightarrow>
          (case signRequest P (bucket_opts ''PUT'' storage endpoint) w of
             (Inl e, w1) \<Rightarrow> (Inl e, w1)
           | (Inr sr, w1) \<Rightarrow>
               (case do_fetch P \<lparr>req_method = ''PUT'', req_url = sr_url sr,
                                 req_headers = sr_headers sr\<rparr> w1 of
                  (Rejected, w2) \<Rightarrow> (Inl NetworkError, w2)
                | (Response status body, w2) \<Rightarrow>
                    if status = 200 \<or> status = 201 then (Inr True, w2)
                    else if status = 409 then (Inr False, w2)
                    else if includes_str body ''BucketAlreadyOwnedByYou'' then (Inr False, w2)
                    else (Inl (CreateBucketFailed (st_bucket storage) status body), w2))))"

text \<open>
  \<^verbatim>\<open>detectR2Jurisdiction\<close>. One round of its loop is \<open>probe\<close>: the endpoint of the
  candidate, the signed \<^verbatim>\<open>GET /\<close>, and whether the answer is 200; signing and fetching
  stand together in the \<^verbatim>\<open>try\<close> block, whose \<^verbatim>\<open>catch\<close> goes on to the next candidate.
\<close>

definition r2_endpoint :: "string \<Rightarrow> string \<Rightarrow> string" where
  "r2_endpoint accountId jur =
     (if jur \<noteq> [] then ''https://'' @ accountId @ ''.'' @ jur @ ''.r2.cloudflarestorage.com''
      else ''https://'' @ accountId @ ''.r2.cloudflarestorage.com'')"

definition probe :: "platform \<Rightarrow> string \<Rightarrow> string \<Rightarrow> string \<Rightarrow> string \<Rightarrow> world \<Rightarrow> bool \<times> world" where
  "probe P accountId accessKeyId secretAccessKey jur w =
     (case signRequest P
             \<lparr>s_method = ''GET'', s_endpoint = r2_endpoint accountId jur, s_path = ''/'',
              s_body = [], s_accessKeyId = accessKeyId,
              s_secretAccessKey = secretAccessKey, s_region = ''auto''\<rparr> w of
        (Inl e, w1) \<Rightarrow> (False, w1)
      | (Inr sr, w1) \<Rightarrow>
          (case do_fetch P \<lparr>req_method = ''GET'', req_url = sr_url sr,
                            req_headers = sr_headers sr\<rparr> w1 of
             (Response status body, w2) \<Rightarrow> (status = 200, w2)
           | (Rejected, w2) \<Rightarrow> (False, w2)))"

fun detect_loop ::
  "platform \<Rightarrow> string \<Rightarrow> string \<Rightarrow> string \<Rightarrow> string list \<Rightarrow> world \<Rightarrow> string \<times> world" where
  "detect_loop P accountId accessKeyId secretAccessKey [] w = ([], w)"
| "detect_loop P accountId accessKeyId secretAccessKey (jur # rest) w =
     (case probe P accountId accessKeyId secretAccessKey jur w of
        (True, w') \<Rightarrow> (jur, w')
      | (False, w') \<Rightarrow> detect_loop P accountId accessKeyId secretAccessKey rest w')"

definition jurisdictions :: "string list" where
  "jurisdictions = [[], ''eu'']"

definition detectR2Jurisdiction ::
  "platform \<Rightarrow> string \<Rightarrow> string \<Rightarrow> string \<Rightarrow> world \<Rightarrow> string \<times> world" where
  "detectR2Jurisdiction P accountId accessKeyId secretAccessKey w =
     detect_loop P accountId accessKeyId secretAccessKey jurisdictions w"

text \<open>
  A platform to run the operations on concrete inputs: a network given by the caller, a
  clock standing at one instant, and placeholders for the digests, whose values no
  statement below depends on. Its URL parser covers an \<^verbatim>\<open>https\<close> origin joined with an
  absolute path.
\<close>

definition test_platform :: "(nat \<Rightarrow> http_request \<Rightarrow> fetch_result) \<Rightarrow> platform" where
  "test_platform net =
     \<lparr>sha256_hex = (\<lambda>s. ''e3b0c442''),
      hmac_sha256 = (\<lambda>k d. ''k''),
      url_parse = (\<lambda>path base.
         if startsWith base ''https://''
         then Some \<lparr>url_host = drop 8 base, url_pathname = path, url_search = [],
                    url_href = base @ path\<rparr>
         else None),
      toISOString = (\<lambda>t. ''2026-01-01T00:00:00.000Z''),
      clock = (\<lambda>n. 1767225600000),
      fetch = net\<rparr>"

definition test_storage :: "provider \<Rightarrow> string option \<Rightarrow> StorageConfig" where
  "test_storage prov ep =
     \<lparr>st_provider = prov, st_bucket = ''backups'', st_accountId = None,
      st_accessKeyId = ''AKID'', st_secretAccessKey = ''secret'', st_endpoint = ep,
      st_region = None, st_jurisdiction = None\<rparr>"

definition world0 :: world where
  "world0 = \<lparr>clock_reads = 0, sent = []\<rparr>"

text \<open>A network on which only the \<^verbatim>\<open>eu\<close> endpoint of the account \<^verbatim>\<open>acct\<close> answers 200.\<close>

definition eu_only :: "nat \<Rightarrow> http_request \<Rightarrow> fetch_result" where
  "eu_only n r =
     (if req_url r = ''https://acct.eu.r2.cloudflarestorage.com/''
      then Response 200 ''<ListAllMyBucketsResult/>''
      else Response 403 ''AccessDenied'')"

section \<open>The command line layer (src/cli/backup.ts, src/cli/restore.ts)\<close>

text \<open>
  A command ends by returning, by \<^verbatim>\<open>process.exit(code)\<close> or by an exception that leaves
  it (the text is \<^verbatim>\<open>String(err)\<close>). What it writes and whom it calls is kept as a list of
  events, in order: the calls of the logger \<^verbatim>\<open>log\<close>, the calls on a spinner of
  \<^verbatim>\<open>ora\<close>, a query of the secret store, and the calls of \<^verbatim>\<open>backup\<close> and
  \<^verbatim>\<open>forget\<close> of src/core/restic.ts. \<^verbatim>\<open>chalk.dim\<close> only colours a text and is left out.
\<close>

datatype failure = Exit nat | Throw string

datatype includes_value = NoFilter | Globs "string list" | InheritedProperty string

record RetentionConfig =
  keepLast :: int
  keepDaily :: int
  keepWeekly :: int
  keepMonthly :: int

record ClawstashConfig =
  c_openclawDir :: string
  c_storage :: StorageConfig
  c_retention :: RetentionConfig
  c_exclude :: "string list"
  c_resticVersion :: string

record ResticBackupSummary =
  files_new :: int
  files_changed :: int
  files_unmodified :: int
  dirs_new :: int
  dirs_changed :: int
  dirs_unmodified :: int
  data_blobs :: int
  tree_blobs :: int
  data_added :: int
  total_files_processed :: int
  total_bytes_processed :: int
  total_duration :: int
  snapshot_id :: string

record backup_call =
  bc_sourceDir :: string
  bc_storage :: StorageConfig
  bc_passphrase :: string
  bc_tags :: "string list"
  bc_excludes :: "string list"
  bc_includes :: includes_value
  bc_dryRun :: "bool option"

record forget_call =
  fc_storage :: StorageConfig
  fc_passphrase :: string
  fc_retention :: RetentionConfig

datatype event =
    LogDebug string
  | LogInfo string
  | LogWarn string
  | LogError string
  | LogBlank
  | LogHeader string
  | LogKv string string "string option"
  | SpinnerStart string
  | SpinnerStop
  | SpinnerFail string
  | SpinnerSucceed string
  | SpinnerWarn string
  | KeychainQuery
  | CallBackup backup_call
  | CallForget forget_call

text \<open>
  What a command finds around it: the configuration on disk (\<^verbatim>\<open>requireConfig\<close> throws when
  there is none), the environment variable \<^verbatim>\<open>CLAWSTASH_PASSPHRASE\<close>, the answer of the
  secret store (\<^verbatim>\<open>getPassphrase\<close> of src/core/keychain.ts, a string or \<^verbatim>\<open>null\<close>), whether
  \<^verbatim>\<open>ensureRestic\<close> throws, whether the scanned directory exists, whether the gateway runs,
  and how the calls of \<^verbatim>\<open>backup\<close> and \<^verbatim>\<open>forget\<close> end. \<^verbatim>\<open>formatBytes\<close> and
  \<^verbatim>\<open>formatDuration\<close> of src/utils/fs.ts compute with floating point numbers and are
  taken as given functions; the duration is counted in their unit.
\<close>

record cli_env =
  e_config :: "string + ClawstashConfig"
  e_passphrase_var :: "string option"
  e_keychain :: "string option"
  e_ensureRestic :: "string option"
  e_scan :: "string + bool"
  e_running :: bool
  e_backup :: "backup_call \<Rightarrow> string + ResticBackupSummary"
  e_forget :: "forget_call \<Rightarrow> string option"
  e_formatBytes :: "int \<Rightarrow> string"
  e_formatDuration :: "int \<Rightarrow> string"

record BackupOptions =
  o_passphrase :: "string option"
  o_only :: "string option"
  o_dryRun :: "bool option"
  o_forget :: "bool option"

text \<open>\<^verbatim>\<open>resolvePassphrase\<close> (the same text in backup.ts and restore.ts).\<close>

definition resolvePassphrase :: "cli_env \<Rightarrow> string option \<Rightarrow> (failure + string) \<times> event list" where
  "resolvePassphrase E passphrase =
     (if truthy passphrase then (Inr (nullish_or passphrase []), [])
      else if truthy (e_passphrase_var E) then (Inr (nullish_or (e_passphrase_var E) []), [])
      else
        (let fromKeychain = e_keychain E in
         if truthy fromKeychain
         then (Inr (nullish_or fromKeychain []),
               [KeychainQuery, LogDebug ''Passphrase loaded from system keychain''])
         else (Inl (Exit 1),
               [KeychainQuery,
                LogError ''No passphrase found.'',
                LogInfo ''Options:'',
                LogInfo ''  1. Save to keychain:  clawstash setup'',
                LogInfo ''  2. Set env var:       export CLAWSTASH_PASSPHRASE=...'',
                LogInfo ''  3. Pass flag:         --passphrase ...''])))"

text \<open>
  \<^verbatim>\<open>map[only]\<close> on an object literal finds the literal's own keys and, failing that, the
  properties every object inherits from \<^verbatim>\<open>Object.prototype\<close>; these are functions or
  objects, hence truthy.
\<close>

definition object_prototype_names :: "string list" where
  "object_prototype_names =
     [''constructor'', ''__defineGetter__'', ''__defineSetter__'', ''hasOwnProperty'',
      ''__lookupGetter__'', ''__lookupSetter__'', ''isPrototypeOf'', ''propertyIsEnumerable'',
      ''toString'', ''valueOf'', ''__proto__'', ''toLocaleString'']"

definition getCategoryIncludes_with ::
  "(string \<times> string list) list \<Rightarrow> string option \<Rightarrow> (failure + includes_value) \<times> event list" where
  "getCategoryIncludes_with table only =
     (if \<not> truthy only then (Inr NoFilter, [])
      else
        (let name = nullish_or only [] in
         case map_of table name of
           Some includes \<Rightarrow> (Inr (Globs includes), [])
         | None \<Rightarrow>
             if name \<in> set object_prototype_names then (Inr (InheritedProperty name), [])
             else (Inl (Exit 1),
                   [LogError (''Unknown category: '' @ name),
                    LogInfo (''Valid categories: '' @ join '', '' (map fst table))])))"

definition backup_map :: "(string \<times> string list) list" where
  "backup_map =
     [(''config'', [''openclaw.json'', ''openclaw.json5'', ''.env'']),
      (''secrets'', [''credentials/**'', ''auth/**'', ''.env'']),
      (''workspace'', [''workspace/**'', ''workspace-*/**'']),
      (''sessions'', [''agents/*/sessions/**'']),
      (''memory'', [''memory/**'']),
      (''skills'', [''skills/**'', ''workspace/skills/**'']),
      (''agents'', [''agents/*/agent/**'']),
      (''settings'', [''settings/**''])]"

definition restore_map :: "(string \<times> string list) list" where
  "restore_map =
     [(''config'', [''**/openclaw.json'', ''**/.env'']),
      (''secrets'', [''**/credentials/**'', ''**/auth/**'']),
      (''workspace'', [''**/workspace/**'']),
      (''sessions'', [''**/agents/*/sessions/**'']),
      (''memory'', [''**/agents/*/memory.sqlite'', ''**/agents/*/memory.db''])]"

text \<open>\<^verbatim>\<open>getCategoryIncludes\<close> of backup.ts and of restore.ts: one text, two tables.\<close>

definition getCategoryIncludes_backup :: "string option \<Rightarrow> (failure + includes_value) \<times> event list" where
  "getCategoryIncludes_backup only = getCategoryIncludes_with backup_map only"

definition getCategoryIncludes_restore :: "string option \<Rightarrow> (failure + includes_value) \<times> event list" where
  "getCategoryIncludes_restore only = getCategoryIncludes_with restore_map only"

text \<open>The names of the closed enumeration \<^verbatim>\<open>FileCategory\<close>.\<close>

fun category_name :: "FileCategory \<Rightarrow> string" where
  "category_name Config = ''config''"
| "category_name Secrets = ''secrets''"
| "category_name Workspace = ''workspace''"
| "category_name Sessions = ''sessions''"
| "category_name Memory = ''memory''"
| "category_name Skills = ''skills''"
| "category_name Agents = ''agents''"
| "category_name Settings = ''settings''"
| "category_name Other = ''other''"

definition DEFAULT_EXCLUDES :: "string list" where
  "DEFAULT_EXCLUDES =
     [''*.lock'', ''gateway.lock'', ''*.tmp'', ''*.temp'', ''*-wal'', ''*-shm'',
      ''node_modules'', ''.DS_Store'', ''Thumbs.db'', ''*.log'', ''cache/'', ''.cache/'',
      ''sandboxes/'', ''*/qmd/xdg-cache/'']"

text \<open>A number in a template literal: the decimal digits of an integer.\<close>

fun show_nat :: "nat \<Rightarrow> string" where
  "show_nat n =
     (if n < 10 then [''0123456789'' ! n]
      else show_nat (n div 10) @ [''0123456789'' ! (n mod 10)])"

definition show_int :: "int \<Rightarrow> string" where
  "show_int i = (if i < 0 then ''-'' @ show_nat (nat (- i)) else show_nat (nat i))"

fun is_true :: "bool option \<Rightarrow> bool" where
  "is_true (Some True) = True"
| "is_true _ = False"

definition backup_call_of ::
  "ClawstashConfig \<Rightarrow> BackupOptions \<Rightarrow> string \<Rightarrow> includes_value \<Rightarrow> backup_call" where
  "backup_call_of config opts passphrase includes =
     \<lparr>bc_sourceDir = c_openclawDir config,
      bc_storage = c_storage config,
      bc_passphrase = passphrase,
      bc_tags = ''clawstash'' # (if truthy (o_only opts) then [nullish_or (o_only opts) []] else []),
      bc_excludes = DEFAULT_EXCLUDES @ c_exclude config,
      bc_includes = includes,
      bc_dryRun = o_dryRun opts\<rparr>"

definition forget_call_of :: "ClawstashConfig \<Rightarrow> string \<Rightarrow> forget_call" where
  "forget_call_of config passphrase =
     \<lparr>fc_storage = c_storage config, fc_passphrase = passphrase,
      fc_retention = c_retention config\<rparr>"

text \<open>
  The second half of \<^verbatim>\<open>backupCommand\<close>: the \<^verbatim>\<open>try\<close> block around \<^verbatim>\<open>backup\<close> and the
  report of its summary, whose \<^verbatim>\<open>catch\<close> exits with code 1, and then the retention
  policy in a \<^verbatim>\<open>try\<close> block of its own, whose \<^verbatim>\<open>catch\<close> warns and goes on.
\<close>

definition run_backup_and_forget ::
  "cli_env \<Rightarrow> BackupOptions \<Rightarrow> ClawstashConfig \<Rightarrow> string \<Rightarrow> includes_value \<Rightarrow>
   (failure + unit) \<times> event list" where
  "run_backup_and_forget E opts config passphrase includes =
     (let call = backup_call_of config opts passphrase includes;
          started = [SpinnerStart (if is_true (o_dryRun opts)
                                   then ''Calculating backup (dry run)...''
                                   else ''Backing up...''),
                     CallBackup call]
      in case e_backup E call of
           Inl err \<Rightarrow> (Inl (Exit 1), started @ [SpinnerFail ''Backup failed'', LogError err])
         | Inr summary \<Rightarrow>
             (let totalFiles = files_new summary + files_changed summary +
                               files_unmodified summary;
                  changedFiles = files_new summary + files_changed summary;
                  reported = started @
                    [SpinnerStop, LogBlank,
                     LogHeader (if is_true (o_dryRun opts) then ''Dry run complete''
                                else ''Backup complete''),
                     LogKv ''Snapshot'' (take 8 (snapshot_id summary)) (Some ''ok''),
                     LogKv ''Files'' (show_int totalFiles @ '' total, '' @
                                      show_int changedFiles @ '' changed'') None,
                     LogKv ''Data added'' (e_formatBytes E (data_added summary)) None,
                     LogKv ''Processed'' (e_formatBytes E (total_bytes_processed summary)) None,
                     LogKv ''Duration'' (e_formatDuration E (total_duration summary)) None]
              in if \<not> is_true (o_dryRun opts) \<and> o_forget opts \<noteq> Some False
                 then
                   (let fcall = forget_call_of config passphrase;
                        applying = reported @
                          [SpinnerStart ''Applying retention policy...'', CallForget fcall]
                    in case e_forget E fcall of
                         None \<Rightarrow> (Inr (), applying @ [SpinnerSucceed ''Retention policy applied''])
                       | Some err \<Rightarrow>
                           (Inr (), applying @
                              [SpinnerWarn ''Retention policy failed (backup was successful)'',
                               LogDebug err]))
                 else (Inr (), reported)))"

definition backupCommand :: "cli_env \<Rightarrow> BackupOptions \<Rightarrow> (failure + unit) \<times> event list" where
  "backupCommand E opts =
     (case e_config E of
        Inl msg \<Rightarrow> (Inl (Throw msg), [])
      | Inr config \<Rightarrow>
          (case resolvePassphrase E (o_passphrase opts) of
             (Inl f, t1) \<Rightarrow> (Inl f, t1)
           | (Inr passphrase, t1) \<Rightarrow>
               (case e_ensureRestic E of
                  Some msg \<Rightarrow> (Inl (Throw msg), t1)
                | None \<Rightarrow>
                    (case e_scan E of
                       Inl msg \<Rightarrow> (Inl (Throw msg), t1)
                     | Inr exists \<Rightarrow>
                         if \<not> exists
                         then (Inl (Exit 1),
                               t1 @ [LogError (''OpenClaw directory not found: '' @
                                               c_openclawDir config)])
                         else
                           (let t2 = t1 @
                                  (if e_running E
                                   then [LogWarn ''OpenClaw gateway is running. SQLite files may be locked.'',
                                         LogInfo ''Backup will proceed but SQLite data may be inconsistent.'',
                                         LogInfo ''For best results, stop OpenClaw first: openclaw gateway stop'',
                                         LogBlank]
                                   else [])
                            in case getCategoryIncludes_backup (o_only opts) of
                                 (Inl f, t3) \<Rightarrow> (Inl f, t2 @ t3)
                               | (Inr includes, t3) \<Rightarrow>
                                   (case run_backup_and_forget E opts config passphrase includes of
                                      (r, t4) \<Rightarrow> (r, t2 @ t3 @ t4)))))))"

text \<open>An event that reports a failure: an error line of the logger or a failed spinner.\<close>

fun reports_failure :: "event \<Rightarrow> bool" where
  "reports_failure (LogError m) = True"
| "reports_failure (SpinnerFail m) = True"
| "reports_failure e = False"

text \<open>Concrete surroundings of a command, to run it on.\<close>

definition test_config :: ClawstashConfig where
  "test_config =
     \<lparr>c_openclawDir = ''/home/user/.openclaw'',
      c_storage = test_storage B2 None,
      c_retention = \<lparr>keepLast = 7, keepDaily = 30, keepWeekly = 12, keepMonthly = 6\<rparr>,
      c_exclude = [],
      c_resticVersion = ''0.17.3''\<rparr>"

definition test_summary :: ResticBackupSummary where
  "test_summary =
     \<lparr>files_new = 3, files_changed = 2, files_unmodified = 10,
      dirs_new = 0, dirs_changed = 1, dirs_unmodified = 4,
      data_blobs = 5, tree_blobs = 2, data_added = 4096,
      total_files_processed = 15, total_bytes_processed = 1048576,
      total_duration = 4, snapshot_id = ''0123456789abcdef''\<rparr>"

definition test_env ::
  "string option \<Rightarrow> string option \<Rightarrow> string + ResticBackupSummary \<Rightarrow> string option \<Rightarrow> cli_env" where
  "test_env var keychain backup_outcome forget_outcome =
     \<lparr>e_config = Inr test_config,
      e_passphrase_var = var,
      e_keychain = keychain,
      e_ensureRestic = None,
      e_scan = Inr True,
      e_running = False,
      e_backup = (\<lambda>call. backup_outcome),
      e_forget = (\<lambda>call. forget_outcome),
      e_formatBytes = (\<lambda>n. show_int n @ '' B''),
      e_formatDuration = (\<lambda>n. show_int n @ ''s'')\<rparr>"

definition test_opts :: BackupOptions where
  "test_opts = \<lparr>o_passphrase = Some ''pass'', o_only = None, o_dryRun = None, o_forget = None\<rparr>"

section \<open>Running the backup engine (src/core/restic.ts)\<close>

text \<open>
  White space for \<^verbatim>\<open>String.prototype.trim\<close> and for \<^verbatim>\<open>\s\<close> in a regular expression: tab, line
  feed, vertical tab, form feed, carriage return, space and the no-break space (the
  other white space characters of JavaScript lie beyond \<^typ>\<open>char\<close>).
\<close>

definition js_whitespace :: "char \<Rightarrow> bool" where
  "js_whitespace c = (c \<in> set [CHR 0x09, CHR 0x0A, CHR 0x0B, CHR 0x0C, CHR 0x0D, CHR 0x20, CHR 0xA0])"

definition trim :: "string \<Rightarrow> string" where
  "trim s = rev (dropWhile js_whitespace (rev (dropWhile js_whitespace s)))"

text \<open>\<^verbatim>\<open>s.split("\n")\<close>: the pieces between line feeds; the empty string has one piece.\<close>

fun split_newline :: "string \<Rightarrow> string list" where
  "split_newline [] = [[]]"
| "split_newline (c # cs) =
     (if c = CHR 0x0A then [] # split_newline cs
      else (case split_newline cs of
              [] \<Rightarrow> [[c]]
            | l # ls \<Rightarrow> (c # l) # ls))"

text \<open>
  A value of \<^verbatim>\<open>JSON.parse\<close>; the numbers are of any type \<open>'n\<close>. An object is the list of
  its properties, each key once. Reading a property of \<^verbatim>\<open>null\<close> throws a
  \<^verbatim>\<open>TypeError\<close> (\<open>Inl\<close>); a property that is not there reads as \<^verbatim>\<open>undefined\<close>
  (\<open>None\<close>), as does any named property of a number, string, boolean or array that
  the sources ask for.
\<close>

datatype 'n json =
    JNull
  | JBool bool
  | JNum 'n
  | JStr string
  | JArr "'n json list"
  | JObj "(string \<times> 'n json) list"

fun get_property :: "'n json \<Rightarrow> string \<Rightarrow> unit + 'n json option" where
  "get_property JNull key = Inl ()"
| "get_property (JObj props) key = Inr (map_of props key)"
| "get_property v key = Inr None"

datatype backup_error = ProcessError string | NoSummary

record backup_options =
  bo_tags :: "string list option"
  bo_excludes :: "string list option"
  bo_includes :: "string list option"
  bo_dryRun :: "bool option"

fun flag_each :: "string \<Rightarrow> string list option \<Rightarrow> string list" where
  "flag_each flag None = []"
| "flag_each flag (Some xs) = concat (map (\<lambda>x. [flag, x]) xs)"

definition backup_args :: "string \<Rightarrow> backup_options option \<Rightarrow> string list" where
  "backup_args sourceDir options =
     [''backup'', sourceDir, ''--json''] @
     (case options of
        None \<Rightarrow> []
      | Some o' \<Rightarrow>
          flag_each ''--tag'' (bo_tags o') @
          flag_each ''--exclude'' (bo_excludes o') @
          flag_each ''--include'' (bo_includes o') @
          (if is_true (bo_dryRun o') then [''--dry-run''] else []))"

text \<open>
  The loop of \<^verbatim>\<open>backup\<close> over the lines, from the last to the first: \<open>scan_lines parse
  lines n\<close> is the loop at index \<open>i = n - 1\<close>, and at \<open>n = 0\<close> the loop is over. A line
  that \<^verbatim>\<open>JSON.parse\<close> rejects (\<open>parse\<close> gives \<open>None\<close>) and a value whose
  \<^verbatim>\<open>message_type\<close> cannot be read both end in the \<^verbatim>\<open>catch\<close>, which goes on.
\<close>

fun scan_lines :: "(string \<Rightarrow> 'n json option) \<Rightarrow> string list \<Rightarrow> nat \<Rightarrow> 'n json option" where
  "scan_lines parse lines 0 = None"
| "scan_lines parse lines (Suc i) =
     (case parse (lines ! i) of
        None \<Rightarrow> scan_lines parse lines i
      | Some parsed \<Rightarrow>
          (case get_property parsed ''message_type'' of
             Inl e \<Rightarrow> scan_lines parse lines i
           | Inr v \<Rightarrow>
               if v = Some (JStr ''summary'') then Some parsed
               else scan_lines parse lines i))"

text \<open>
  \<^verbatim>\<open>backup\<close>, with \<^verbatim>\<open>JSON.parse\<close> and \<^verbatim>\<open>runResticRaw\<close> (arguments and timeout to the
  output of the engine, or the error it throws) as parameters. The summary it returns
  is the parsed object itself.
\<close>

definition backup ::
  "(string \<Rightarrow> 'n json option) \<Rightarrow> (string list \<Rightarrow> nat \<Rightarrow> string + string) \<Rightarrow>
   string \<Rightarrow> backup_options option \<Rightarrow> backup_error + 'n json" where
  "backup parse runResticRaw sourceDir options =
     (case runResticRaw (backup_args sourceDir options) 600000 of
        Inl e \<Rightarrow> Inl (ProcessError e)
      | Inr output \<Rightarrow>
          (let lines = split_newline (trim output) in
           case scan_lines parse lines (length lines) of
             Some summary \<Rightarrow> Inr summary
           | None \<Rightarrow> Inl NoSummary))"

text \<open>
  The reading of the specification: a line qualifies when it parses as JSON and carries
  the discriminator \<^verbatim>\<open>message_type == "summary"\<close>; \<open>summary_of\<close> gives the value of a
  line that qualifies.
\<close>

definition summary_of :: "(string \<Rightarrow> 'n json option) \<Rightarrow> string \<Rightarrow> 'n json option" where
  "summary_of parse line =
     (case parse line of
        None \<Rightarrow> None
      | Some v \<Rightarrow>
          if get_property v ''message_type'' = Inr (Some (JStr ''summary'')) then Some v
          else None)"

text \<open>
  Sample lines of the engine and what \<^verbatim>\<open>JSON.parse\<close> makes of them; any other text
  counts as unparsable for this sample parser.
\<close>

definition quoted :: "string \<Rightarrow> string" where
  "quoted s = CHR 0x22 # s @ [CHR 0x22]"

definition status_line :: string where
  "status_line = ''{'' @ quoted ''message_type'' @ '':'' @ quoted ''status'' @ ''}''"

definition summary_line :: "string \<Rightarrow> string" where
  "summary_line sid =
     ''{'' @ quoted ''message_type'' @ '':'' @ quoted ''summary'' @ '','' @
     quoted ''snapshot_id'' @ '':'' @ quoted sid @ ''}''"

definition sample_parse :: "string \<Rightarrow> int json option" where
  "sample_parse line =
     (if line = status_line then Some (JObj [(''message_type'', JStr ''status'')])
      else if line = summary_line ''aaaa1111''
      then Some (JObj [(''message_type'', JStr ''summary''), (''snapshot_id'', JStr ''aaaa1111'')])
      else if line = summary_line ''bbbb2222''
      then Some (JObj [(''message_type'', JStr ''summary''), (''snapshot_id'', JStr ''bbbb2222'')])
      else if line = ''null'' then Some JNull
      else None)"

definition sample_output :: string where
  "sample_output =
     status_line @ [CHR 0x0A] @ ''open repository'' @ [CHR 0x0A] @
     summary_line ''aaaa1111'' @ [CHR 0x0A]"

definition sample_output_without_summary :: string where
  "sample_output_without_summary = status_line @ [CHR 0x0A] @ ''null'' @ [CHR 0x0A]"

section \<open>Choosing a snapshot by time (src/cli/restore.ts)\<close>

record ResticSnapshot =
  sn_id :: string
  sn_short_id :: string
  sn_time :: string
  sn_hostname :: string
  sn_tags :: "string list option"
  sn_paths :: "string list"

text \<open>
  The regular expression
  \<^verbatim>\<open>/^(\d+)\s+(minute|hour|day|week|month)s?\s+ago$/i\<close>. Each of its parts can match in
  one way only (a run of digits or of white space must be taken whole, since what follows
  it is of another kind; no unit is the beginning of another), so the match is read off
  from left to right. The flag \<^verbatim>\<open>i\<close> makes the letters match in either case.
\<close>

definition lower :: "char \<Rightarrow> char" where
  "lower c =
     (case map_of (zip ''ABCDEFGHIJKLMNOPQRSTUVWXYZ'' ''abcdefghijklmnopqrstuvwxyz'') c of
        Some l \<Rightarrow> l
      | None \<Rightarrow> c)"

definition units :: "string list" where
  "units = [''minute'', ''hour'', ''day'', ''week'', ''month'']"

fun match_unit :: "string list \<Rightarrow> string \<Rightarrow> (string \<times> string) option" where
  "match_unit [] s = None"
| "match_unit (u # us) s =
     (if map lower (take (length u) s) = u then Some (u, drop (length u) s)
      else match_unit us s)"

text \<open>
  The numbers of this function are IEEE doubles. Every one that occurs is an integer, an
  infinity or \<^verbatim>\<open>NaN\<close>: the time values of \<^verbatim>\<open>Date\<close> are integers of at most
  \<open>8.64 \<cdot> 10\<^sup>1\<^sup>5\<close> in absolute value, the multipliers are integers, and sums and products of
  integers are rounded to integers. \<open>round_double\<close> is the rounding of an exact integer
  result to the nearest double, ties to the even significand: exact below \<open>2\<^sup>5\<^sup>3\<close>, a
  multiple of the unit in the last of 53 binary places above, an infinity from
  \<open>2\<^sup>1\<^sup>0\<^sup>2\<^sup>4 - 2\<^sup>9\<^sup>7\<^sup>0\<close> on.
\<close>

datatype jsnum = Num int | PosInf | NegInf | NaN

fun bit_length :: "nat \<Rightarrow> nat" where
  "bit_length n = (if n = 0 then 0 else Suc (bit_length (n div 2)))"

declare bit_length.simps [simp del]

definition round_double :: "int \<Rightarrow> jsnum" where
  "round_double x =
     (if \<bar>x\<bar> < 2 ^ 53 then Num x
      else if 2 ^ 1024 - 2 ^ 970 \<le> \<bar>x\<bar> then (if x < 0 then NegInf else PosInf)
      else
        (let k = bit_length (nat \<bar>x\<bar>) - 53;
             q = \<bar>x\<bar> div 2 ^ k;
             r = \<bar>x\<bar> mod 2 ^ k;
             q' = (if 2 ^ k < 2 * r \<or> (2 * r = 2 ^ k \<and> odd q) then q + 1 else q)
         in Num (sgn x * (q' * 2 ^ k))))"

fun js_sub :: "jsnum \<Rightarrow> jsnum \<Rightarrow> jsnum" where
  "js_sub (Num a) (Num b) = round_double (a - b)"
| "js_sub NaN y = NaN"
| "js_sub x NaN = NaN"
| "js_sub PosInf PosInf = NaN"
| "js_sub NegInf NegInf = NaN"
| "js_sub PosInf y = PosInf"
| "js_sub NegInf y = NegInf"
| "js_sub (Num a) PosInf = NegInf"
| "js_sub (Num a) NegInf = PosInf"

fun js_sign :: "jsnum \<Rightarrow> int" where
  "js_sign (Num a) = sgn a"
| "js_sign PosInf = 1"
| "js_sign NegInf = - 1"
| "js_sign NaN = 0"

fun js_mul :: "jsnum \<Rightarrow> jsnum \<Rightarrow> jsnum" where
  "js_mul (Num a) (Num b) = round_double (a * b)"
| "js_mul NaN y = NaN"
| "js_mul x NaN = NaN"
| "js_mul x y =
     (if js_sign x * js_sign y = 0 then NaN
      else if 0 < js_sign x * js_sign y then PosInf
      else NegInf)"

fun js_abs :: "jsnum \<Rightarrow> jsnum" where
  "js_abs (Num a) = Num \<bar>a\<bar>"
| "js_abs PosInf = PosInf"
| "js_abs NegInf = PosInf"
| "js_abs NaN = NaN"

fun js_lt :: "jsnum \<Rightarrow> jsnum \<Rightarrow> bool" where
  "js_lt (Num a) (Num b) = (a < b)"
| "js_lt NaN y = False"
| "js_lt x NaN = False"
| "js_lt PosInf y = False"
| "js_lt x NegInf = False"
| "js_lt NegInf y = True"
| "js_lt (Num a) PosInf = True"

text \<open>
  \<^verbatim>\<open>parseInt(digits, 10)\<close> on a run of decimal digits: the double nearest to the integer
  the digits denote (exact for a value below \<open>2\<^sup>5\<^sup>3\<close>, \<^verbatim>\<open>Infinity\<close> from about 309
  digits on).
\<close>

definition digit_value :: "char \<Rightarrow> nat" where
  "digit_value c = (case map_of (zip ''0123456789'' [0, 1, 2, 3, 4, 5, 6, 7, 8, 9]) c of
                      Some d \<Rightarrow> d | None \<Rightarrow> 0)"

definition decimal_value :: "string \<Rightarrow> nat" where
  "decimal_value digits = foldl (\<lambda>a c. 10 * a + digit_value c) 0 digits"

definition parseInt :: "string \<Rightarrow> jsnum" where
  "parseInt digits = round_double (int (decimal_value digits))"

definition match_relative :: "string \<Rightarrow> (string \<times> string) option" where
  "match_relative timeStr =
     (let digits = takeWhile is_digit timeStr;
          r1 = dropWhile is_digit timeStr;
          r2 = dropWhile js_whitespace r1
      in if digits = [] \<or> takeWhile js_whitespace r1 = [] then None
         else
           (case match_unit units r2 of
              None \<Rightarrow> None
            | Some (unit, r3) \<Rightarrow>
                (let r4 = (case r3 of
                             [] \<Rightarrow> r3
                           | c # cs \<Rightarrow> if lower c = CHR ''s'' then cs else r3);
                     r5 = dropWhile js_whitespace r4
                 in if takeWhile js_whitespace r4 = [] then None
                    else if map lower r5 = ''ago'' then Some (digits, unit)
                    else None)))"

definition multipliers :: "(string \<times> int) list" where
  "multipliers =
     [(''minute'', 60000), (''hour'', 3600000), (''day'', 86400000),
      (''week'', 604800000), (''month'', 2592000000)]"

text \<open>
  \<^verbatim>\<open>new Date(s).getTime()\<close>: the parser of dates is a parameter, \<open>None\<close> for a text it
  does not parse, whose time value is \<^verbatim>\<open>NaN\<close>.
\<close>

definition date_time :: "(string \<Rightarrow> int option) \<Rightarrow> string \<Rightarrow> jsnum" where
  "date_time date_parse s = (case date_parse s of None \<Rightarrow> NaN | Some t \<Rightarrow> Num t)"

text \<open>
  The target instant, in milliseconds: \<^verbatim>\<open>Date.now()\<close> less the amount times the
  multiplier of the unit for a relative phrase, with no check of the result;
  \<^verbatim>\<open>new Date(timeStr).getTime()\<close> otherwise, where \<^verbatim>\<open>NaN\<close> ends the command (\<open>None\<close>).
\<close>

definition target_time :: "(string \<Rightarrow> int option) \<Rightarrow> int \<Rightarrow> string \<Rightarrow> jsnum option" where
  "target_time date_parse now timeStr =
     (case match_relative timeStr of
        Some (digits, unit) \<Rightarrow>
          Some (js_sub (Num now)
                  (js_mul (parseInt digits)
                     (case map_of multipliers unit of Some m \<Rightarrow> Num m | None \<Rightarrow> Num 0)))
      | None \<Rightarrow>
          (let targetTime = date_time date_parse timeStr
           in if targetTime = NaN then None else Some targetTime))"

text \<open>
  The loop over the snapshots, with \<^verbatim>\<open>best\<close> and \<^verbatim>\<open>bestDiff\<close> as it goes. A snapshot
  whose time does not parse has the difference \<^verbatim>\<open>NaN\<close>, and against the target
  \<^verbatim>\<open>-Infinity\<close> every difference is \<^verbatim>\<open>Infinity\<close>; neither is less than \<^verbatim>\<open>bestDiff\<close>.
\<close>

fun closest ::
  "(string \<Rightarrow> int option) \<Rightarrow> jsnum \<Rightarrow> ResticSnapshot list \<Rightarrow> ResticSnapshot option \<Rightarrow>
   jsnum \<Rightarrow> ResticSnapshot option" where
  "closest date_parse targetTime [] best bestDiff = best"
| "closest date_parse targetTime (snap # rest) best bestDiff =
     (let snapTime = date_time date_parse (sn_time snap);
          diff = js_abs (js_sub snapTime targetTime)
      in if js_lt diff bestDiff
         then closest date_parse targetTime rest (Some snap) diff
         else closest date_parse targetTime rest best bestDiff)"

definition findSnapshotByTime ::
  "(string \<Rightarrow> int option) \<Rightarrow> int \<Rightarrow> ResticSnapshot list \<Rightarrow> string \<Rightarrow>
   (failure + ResticSnapshot option) \<times> event list" where
  "findSnapshotByTime date_parse now snapshots timeStr =
     (case target_time date_parse now timeStr of
        None \<Rightarrow> (Inl (Exit 1), [LogError (''Cannot parse time: '' @ timeStr)])
      | Some targetTime \<Rightarrow> (Inr (closest date_parse targetTime snapshots None PosInf), []))"

text \<open>
  The difference between the time of a snapshot and the target, as the loop computes it.
\<close>

definition distance :: "(string \<Rightarrow> int option) \<Rightarrow> jsnum \<Rightarrow> ResticSnapshot \<Rightarrow> jsnum" where
  "distance date_parse targetTime snap =
     js_abs (js_sub (date_time date_parse (sn_time snap)) targetTime)"

text \<open>A few timestamps and what \<^verbatim>\<open>Date\<close> makes of them; any other text is \<^verbatim>\<open>NaN\<close> here.\<close>

definition sample_date :: "string \<Rightarrow> int option" where
  "sample_date s =
     (if s = ''2026-01-01T00:00:00.000Z'' then Some 1767225600000
      else if s = ''2025-12-31T00:00:00.000Z'' then Some 1767139200000
      else if s = ''2025-12-29T00:00:00.000Z'' then Some 1766966400000
      else if s = ''2025-12-31T23:00:00.000Z'' then Some 1767222000000
      else None)"

definition snapshot_at :: "string \<Rightarrow> string \<Rightarrow> ResticSnapshot" where
  "snapshot_at name t =
     \<lparr>sn_id = name @ ''-full-id'', sn_short_id = name, sn_time = t, sn_hostname = ''test'',
      sn_tags = Some [''clawstash''], sn_paths = [''/home/user/.openclaw'']\<rparr>"

section \<open>Properties of the categoriser\<close>

lemma first_match_none: "\<forall>r \<in> set rs. \<not> snd r p \<Longrightarrow> first_match rs p = Other"
  by (induction rs) auto

text \<open>
  Claim C6. \<^const>\<open>categorizeFile\<close> is total: every path has a category, one of the nine of
  the enumeration; it is the category of the first rule of the ordered table that matches
  the path, and \<^const>\<open>Other\<close> when none does. The workspace rule stands before the skills
  rule: \<^verbatim>\<open>workspace/skills/x/SKILL.md\<close> is categorised as workspace and
  \<^verbatim>\<open>skills/x/SKILL.md\<close> as skills.
\<close>

theorem categorizeFile_total_first_match:
  "categorizeFile p \<in> set all_categories \<and>
   length all_categories = 9 \<and> distinct all_categories \<and>
   categorizeFile p = first_match category_rules p \<and>
   ((\<forall>r \<in> set category_rules. \<not> snd r p) \<longrightarrow> categorizeFile p = Other) \<and>
   categorizeFile ''workspace/skills/x/SKILL.md'' = Workspace \<and>
   categorizeFile ''skills/x/SKILL.md'' = Skills"
proof -
  have mem: "categorizeFile p \<in> set all_categories"
    by (cases "categorizeFile p") (simp_all add: all_categories_def)
  have len: "length all_categories = 9 \<and> distinct all_categories"
    by (simp add: all_categories_def)
  have fm: "categorizeFile p = first_match category_rules p"
    unfolding categorizeFile_def category_rules_def first_match.simps by (rule refl)
  have none: "(\<forall>r \<in> set category_rules. \<not> snd r p) \<longrightarrow> categorizeFile p = Other"
    using fm first_match_none [of category_rules p] by simp
  have w: "categorizeFile ''workspace/skills/x/SKILL.md'' = Workspace"
    by (simp add: categorizeFile_def)
  have s: "categorizeFile ''skills/x/SKILL.md'' = Skills"
    by (simp add: categorizeFile_def)
  from mem len fm none w s show ?thesis by blast
qed

theorem categorizeFile_total_first_match_witness:
  "list_all (\<lambda>r. \<not> snd r ''notes/todo.txt'') category_rules \<and>
   categorizeFile ''notes/todo.txt'' \<in> set all_categories \<and>
   categorizeFile ''notes/todo.txt'' = Other"
proof -
  have h: "\<forall>r \<in> set category_rules. \<not> snd r ''notes/todo.txt''"
    by (simp add: category_rules_def matches_agent_dir_def endsWith_def)
  have a: "list_all (\<lambda>r. \<not> snd r ''notes/todo.txt'') category_rules"
    using h unfolding list_all_iff .
  have b: "categorizeFile ''notes/todo.txt'' \<in> set all_categories \<and>
      categorizeFile ''notes/todo.txt'' = Other"
    using categorizeFile_total_first_match [of "''notes/todo.txt''"] h by blast
  from a b show ?thesis by (rule conjI)
qed


section \<open>Properties of request signing and the bucket operations\<close>

text \<open>
  Claim C5. With the method, endpoint, path, body, keys and region fixed, two runs of
  \<^const>\<open>signRequest\<close> whose clock readings give the same timestamp string (the clock
  enters the signature through \<^const>\<open>amz_date\<close> alone) return the same value: the
  same error, or the same URL and the same four headers. The Authorization header
  holds the access key, the credential scope made of the date, the region, the service
  and the terminator, the list of signed headers, and the signature.
\<close>

theorem signRequest_deterministic:
  "amz_date P (clock P (clock_reads w1)) = amz_date P (clock P (clock_reads w2)) \<Longrightarrow>
   fst (signRequest P opts w1) = fst (signRequest P opts w2) \<and>
   (\<forall>sr. fst (signRequest P opts w1) = Inr sr \<longrightarrow>
      map fst (sr_headers sr) =
        [''Host'', ''x-amz-date'', ''x-amz-content-sha256'', ''Authorization''] \<and>
      (\<exists>signature.
         map_of (sr_headers sr) ''Authorization'' =
           Some (''AWS4-HMAC-SHA256 Credential='' @ s_accessKeyId opts @ ''/'' @
                 take 8 (amz_date P (clock P (clock_reads w1))) @ ''/'' @ s_region opts @
                 ''/s3/aws4_request, SignedHeaders=host;x-amz-content-sha256;x-amz-date, Signature='' @
                 signature)))"
proof
  assume same: "amz_date P (clock P (clock_reads w1)) = amz_date P (clock P (clock_reads w2))"
  show "fst (signRequest P opts w1) = fst (signRequest P opts w2)"
  proof (cases "url_parse P (s_path opts) (s_endpoint opts)")
    case None
    then show ?thesis by (simp add: signRequest_def)
  next
    case (Some u)
    then show ?thesis using same by (simp add: signRequest_def)
  qed
next
  show "\<forall>sr. fst (signRequest P opts w1) = Inr sr \<longrightarrow>
      map fst (sr_headers sr) =
        [''Host'', ''x-amz-date'', ''x-amz-content-sha256'', ''Authorization''] \<and>
      (\<exists>signature.
         map_of (sr_headers sr) ''Authorization'' =
           Some (''AWS4-HMAC-SHA256 Credential='' @ s_accessKeyId opts @ ''/'' @
                 take 8 (amz_date P (clock P (clock_reads w1))) @ ''/'' @ s_region opts @
                 ''/s3/aws4_request, SignedHeaders=host;x-amz-content-sha256;x-amz-date, Signature='' @
                 signature))"
    by (auto simp: signRequest_def sign_with_def Let_def split: option.splits)
qed

theorem signRequest_deterministic_witness:
  "amz_date (test_platform (\<lambda>n r. Rejected))
      (clock (test_platform (\<lambda>n r. Rejected)) (clock_reads world0)) =
   amz_date (test_platform (\<lambda>n r. Rejected))
      (clock (test_platform (\<lambda>n r. Rejected)) (clock_reads (world0\<lparr>clock_reads := 7\<rparr>))) \<and>
   fst (signRequest (test_platform (\<lambda>n r. Rejected))
          (bucket_opts ''HEAD'' (test_storage B2 None) ''https://s3.us-west-004.backblazeb2.com'')
          world0) =
   fst (signRequest (test_platform (\<lambda>n r. Rejected))
          (bucket_opts ''HEAD'' (test_storage B2 None) ''https://s3.us-west-004.backblazeb2.com'')
          (world0\<lparr>clock_reads := 7\<rparr>))"
proof -
  have h: "amz_date (test_platform (\<lambda>n r. Rejected))
      (clock (test_platform (\<lambda>n r. Rejected)) (clock_reads world0)) =
   amz_date (test_platform (\<lambda>n r. Rejected))
      (clock (test_platform (\<lambda>n r. Rejected)) (clock_reads (world0\<lparr>clock_reads := 7\<rparr>)))"
    by (simp add: test_platform_def)
  from signRequest_deterministic [OF h] h show ?thesis by blast
qed

lemma test_endpoint:
  "getStorageEndpoint (test_storage B2 None) = Inr ''https://s3.us-west-004.backblazeb2.com''"
  by (simp add: getStorageEndpoint_def test_storage_def)

lemma test_sign:
  "signRequest (test_platform net)
     (bucket_opts m (test_storage B2 None) ''https://s3.us-west-004.backblazeb2.com'') world0 =
   (Inr (sign_with (test_platform net)
          (bucket_opts m (test_storage B2 None) ''https://s3.us-west-004.backblazeb2.com'')
          \<lparr>url_host = ''s3.us-west-004.backblazeb2.com'', url_pathname = ''/backups'',
           url_search = [], url_href = ''https://s3.us-west-004.backblazeb2.com/backups''\<rparr>
          (amz_date (test_platform net) 1767225600000)),
    world0\<lparr>clock_reads := Suc 0\<rparr>)"
  by (simp add: signRequest_def test_platform_def bucket_opts_def test_storage_def world0_def)

lemma test_fetch: "fetch (test_platform (\<lambda>n r. x)) k q = x"
  by (simp add: test_platform_def)

text \<open>
  Claim C7, as stated, fails: \<^const>\<open>bucketExists\<close> raises for a MinIO configuration
  without an endpoint, since \<^const>\<open>getStorageEndpoint\<close> throws before the \<^verbatim>\<open>try\<close> block.
\<close>

theorem bucketExists_minio_counterexample:
  "fst (bucketExists (test_platform (\<lambda>n r. Rejected)) (test_storage MinIO None) world0) =
     Inl (EndpointError ''MinIO requires a custom endpoint'')"
  by (simp add: bucketExists_def getStorageEndpoint_def test_storage_def)

text \<open>
  Claim C7, amended. When the endpoint of the configuration can be derived and the request
  can be signed, \<^const>\<open>bucketExists\<close> raises no error: it returns \<^verbatim>\<open>true\<close> exactly when the
  signed \<^verbatim>\<open>HEAD /{bucket}\<close> is answered with status 200, and \<^verbatim>\<open>false\<close> for every other
  status and for a request that fails on the network. An error of the endpoint derivation
  or of the construction of the URL, which both come before the \<^verbatim>\<open>try\<close> block, is
  raised to the caller.
\<close>

theorem bucketExists_true_iff_200:
  "(getStorageEndpoint storage = Inr endpoint \<and>
    signRequest P (bucket_opts ''HEAD'' storage endpoint) w = (Inr sr, w1) \<longrightarrow>
      fst (bucketExists P storage w) =
        Inr (case fetch P (length (sent w1))
                    \<lparr>req_method = ''HEAD'', req_url = sr_url sr,
                     req_headers = sr_headers sr\<rparr> of
               Response status body \<Rightarrow> status = 200
             | Rejected \<Rightarrow> False)) \<and>
   (getStorageEndpoint storage = Inl e \<longrightarrow> fst (bucketExists P storage w) = Inl e) \<and>
   (getStorageEndpoint storage = Inr endpoint \<and>
    signRequest P (bucket_opts ''HEAD'' storage endpoint) w = (Inl e, w1) \<longrightarrow>
      fst (bucketExists P storage w) = Inl e)"
proof (intro conjI impI)
  assume "getStorageEndpoint storage = Inr endpoint \<and>
    signRequest P (bucket_opts ''HEAD'' storage endpoint) w = (Inr sr, w1)"
  then show "fst (bucketExists P storage w) =
        Inr (case fetch P (length (sent w1))
                    \<lparr>req_method = ''HEAD'', req_url = sr_url sr,
                     req_headers = sr_headers sr\<rparr> of
               Response status body \<Rightarrow> status = 200
             | Rejected \<Rightarrow> False)"
    by (simp add: bucketExists_def do_fetch_def split: fetch_result.splits)
next
  assume "getStorageEndpoint storage = Inl e"
  then show "fst (bucketExists P storage w) = Inl e"
    by (simp add: bucketExists_def)
next
  assume "getStorageEndpoint storage = Inr endpoint \<and>
    signRequest P (bucket_opts ''HEAD'' storage endpoint) w = (Inl e, w1)"
  then show "fst (bucketExists P storage w) = Inl e"
    by (simp add: bucketExists_def)
qed

theorem bucketExists_true_iff_200_witness:
  "getStorageEndpoint (test_storage B2 None) = Inr ''https://s3.us-west-004.backblazeb2.com'' \<and>
   fst (bucketExists (test_platform (\<lambda>n r. Response 200 [])) (test_storage B2 None) world0) =
     Inr True \<and>
   fst (bucketExists (test_platform (\<lambda>n r. Response 404 [])) (test_storage B2 None) world0) =
     Inr False \<and>
   fst (bucketExists (test_platform (\<lambda>n r. Rejected)) (test_storage B2 None) world0) =
     Inr False"
proof -
  note t = bucketExists_true_iff_200 [THEN conjunct1, rule_format, OF conjI, OF test_endpoint test_sign]
  show ?thesis
    using test_endpoint t [of "\<lambda>n r. Response 200 []"] t [of "\<lambda>n r. Response 404 []"]
      t [of "\<lambda>n r. Rejected"]
    by (simp add: test_fetch)
qed

text \<open>
  Claim C3, as stated, fails: a response with status 500, which is neither 409 nor a 4xx
  status, whose body holds the marker is classified as "already owned", not as an error.
\<close>

theorem createBucket_500_counterexample:
  "fst (createBucket (test_platform (\<lambda>n r. Response 500 ''<Code>BucketAlreadyOwnedByYou</Code>''))
         (test_storage B2 None) world0) = Inr False"
  by (simp add: createBucket_def getStorageEndpoint_def test_storage_def signRequest_def
      test_platform_def bucket_opts_def do_fetch_def world0_def)

text \<open>
  Claim C3, amended. For a response to the signed \<^verbatim>\<open>PUT /{bucket}\<close>, \<^const>\<open>createBucket\<close>
  returns "created" (\<^verbatim>\<open>true\<close>) exactly when the status is 200 or 201; it returns "already
  owned" (\<^verbatim>\<open>false\<close>) exactly when the status is 409, or the status is none of 200 and 201
  and the body contains the marker \<^verbatim>\<open>BucketAlreadyOwnedByYou\<close>, whatever the status class;
  in every other case it fails with an error that carries the bucket name, the status code
  and the response body.
\<close>

theorem createBucket_classifies:
  assumes "getStorageEndpoint storage = Inr endpoint"
    and "signRequest P (bucket_opts ''PUT'' storage endpoint) w = (Inr sr, w1)"
    and "fetch P (length (sent w1))
           \<lparr>req_method = ''PUT'', req_url = sr_url sr, req_headers = sr_headers sr\<rparr> =
         Response status body"
  shows "(fst (createBucket P storage w) = Inr True) = (status = 200 \<or> status = 201) \<and>
         (fst (createBucket P storage w) = Inr False) =
           (status = 409 \<or>
            (status \<noteq> 200 \<and> status \<noteq> 201 \<and> includes_str body ''BucketAlreadyOwnedByYou'')) \<and>
         (status \<noteq> 200 \<and> status \<noteq> 201 \<and> status \<noteq> 409 \<and>
          \<not> includes_str body ''BucketAlreadyOwnedByYou'' \<longrightarrow>
            fst (createBucket P storage w) =
              Inl (CreateBucketFailed (st_bucket storage) status body))"
  using assms by (simp add: createBucket_def do_fetch_def)

theorem createBucket_classifies_witness:
  "fst (createBucket (test_platform (\<lambda>n r. Response 201 [])) (test_storage B2 None) world0) =
     Inr True \<and>
   fst (createBucket (test_platform (\<lambda>n r. Response 409 [])) (test_storage B2 None) world0) =
     Inr False \<and>
   fst (createBucket (test_platform (\<lambda>n r. Response 400 ''<Code>BucketAlreadyOwnedByYou</Code>''))
          (test_storage B2 None) world0) = Inr False \<and>
   fst (createBucket (test_platform (\<lambda>n r. Response 403 ''AccessDenied''))
          (test_storage B2 None) world0) =
     Inl (CreateBucketFailed ''backups'' 403 ''AccessDenied'')"
proof -
  have b: "st_bucket (test_storage B2 None) = ''backups''"
    by (simp add: test_storage_def)
  show ?thesis
    using createBucket_classifies [OF test_endpoint test_sign test_fetch,
        where status = 201 and body = "[]"]
      createBucket_classifies [OF test_endpoint test_sign test_fetch,
        where status = 409 and body = "[]"]
      createBucket_classifies [OF test_endpoint test_sign test_fetch,
        where status = 400 and body = "''<Code>BucketAlreadyOwnedByYou</Code>''"]
      createBucket_classifies [OF test_endpoint test_sign test_fetch,
        where status = 403 and body = "''AccessDenied''"]
    by (simp add: b)
qed


lemma sign_with_url: "sr_url (sign_with P opts u d) = url_href u"
  by (simp add: sign_with_def Let_def)

lemma probe_200:
  "fst (probe P a k s jur w) =
     (\<exists>sr w1 body.
        signRequest P \<lparr>s_method = ''GET'', s_endpoint = r2_endpoint a jur, s_path = ''/'',
              s_body = [], s_accessKeyId = k, s_secretAccessKey = s, s_region = ''auto''\<rparr> w
          = (Inr sr, w1) \<and>
        fetch P (length (sent w1))
          \<lparr>req_method = ''GET'', req_url = sr_url sr, req_headers = sr_headers sr\<rparr> =
        Response 200 body)"
  by (auto simp: probe_def do_fetch_def split: prod.splits sum.splits fetch_result.splits)

lemma probe_rejected:
  "\<forall>n r. fetch P n r = Rejected \<Longrightarrow> fst (probe P a k s jur w) = False"
  by (simp add: probe_200)

lemma probe_sent:
  "sent (snd (probe P a k s jur w)) = sent w \<or>
   (\<exists>req. sent (snd (probe P a k s jur w)) = sent w @ [req])"
  by (auto simp: probe_def do_fetch_def signRequest_def
      split: prod.splits sum.splits fetch_result.splits option.splits)

text \<open>
  Claim C9. \<^const>\<open>detectR2Jurisdiction\<close> goes through the candidates \<^verbatim>\<open>""\<close> and
  \<^verbatim>\<open>"eu"\<close> in this order. A round succeeds exactly when its signed \<^verbatim>\<open>GET /\<close> is answered
  with status 200, and sends one request at most. When the first round succeeds the
  result is \<^verbatim>\<open>""\<close> and the second round is not run (the world is the one the first round
  left); when only the second succeeds the result is \<^verbatim>\<open>"eu"\<close>; when none succeeds, in
  particular when every request fails on the network, the result is \<^verbatim>\<open>""\<close>. The
  function returns a string in every case: it has no error result.
\<close>

theorem detectR2Jurisdiction_first_200:
  "jurisdictions = [[], ''eu''] \<and>
   (fst (probe P a k s jur w) =
     (\<exists>sr w1 body.
        signRequest P \<lparr>s_method = ''GET'', s_endpoint = r2_endpoint a jur, s_path = ''/'',
              s_body = [], s_accessKeyId = k, s_secretAccessKey = s, s_region = ''auto''\<rparr> w
          = (Inr sr, w1) \<and>
        fetch P (length (sent w1))
          \<lparr>req_method = ''GET'', req_url = sr_url sr, req_headers = sr_headers sr\<rparr> =
        Response 200 body)) \<and>
   (sent (snd (probe P a k s jur w)) = sent w \<or>
     (\<exists>req. sent (snd (probe P a k s jur w)) = sent w @ [req])) \<and>
   (fst (probe P a k s [] w) \<longrightarrow>
      detectR2Jurisdiction P a k s w = ([], snd (probe P a k s [] w))) \<and>
   (\<not> fst (probe P a k s [] w) \<and> fst (probe P a k s ''eu'' (snd (probe P a k s [] w))) \<longrightarrow>
      detectR2Jurisdiction P a k s w =
        (''eu'', snd (probe P a k s ''eu'' (snd (probe P a k s [] w))))) \<and>
   (\<not> fst (probe P a k s [] w) \<and> \<not> fst (probe P a k s ''eu'' (snd (probe P a k s [] w))) \<longrightarrow>
      detectR2Jurisdiction P a k s w =
        ([], snd (probe P a k s ''eu'' (snd (probe P a k s [] w))))) \<and>
   ((\<forall>n r. fetch P n r = Rejected) \<longrightarrow> fst (detectR2Jurisdiction P a k s w) = [])"
proof -
  obtain ok1 w1 where p1: "probe P a k s [] w = (ok1, w1)"
    by (cases "probe P a k s [] w")
  obtain ok2 w2 where p2: "probe P a k s ''eu'' w1 = (ok2, w2)"
    by (cases "probe P a k s ''eu'' w1")
  have unfold: "detectR2Jurisdiction P a k s w =
      (if ok1 then ([], w1) else if ok2 then (''eu'', w2) else ([], w2))"
    by (simp add: detectR2Jurisdiction_def jurisdictions_def p1 p2)
  have rej: "(\<forall>n r. fetch P n r = Rejected) \<longrightarrow> fst (detectR2Jurisdiction P a k s w) = []"
  proof
    assume r: "\<forall>n r. fetch P n r = Rejected"
    have "\<not> ok1" using probe_rejected [OF r, of a k s "[]" w] p1 by simp
    moreover have "\<not> ok2" using probe_rejected [OF r, of a k s "''eu''" w1] p2 by simp
    ultimately show "fst (detectR2Jurisdiction P a k s w) = []" by (simp add: unfold)
  qed
  have rounds: "(fst (probe P a k s [] w) \<longrightarrow>
      detectR2Jurisdiction P a k s w = ([], snd (probe P a k s [] w))) \<and>
   (\<not> fst (probe P a k s [] w) \<and> fst (probe P a k s ''eu'' (snd (probe P a k s [] w))) \<longrightarrow>
      detectR2Jurisdiction P a k s w =
        (''eu'', snd (probe P a k s ''eu'' (snd (probe P a k s [] w))))) \<and>
   (\<not> fst (probe P a k s [] w) \<and> \<not> fst (probe P a k s ''eu'' (snd (probe P a k s [] w))) \<longrightarrow>
      detectR2Jurisdiction P a k s w =
        ([], snd (probe P a k s ''eu'' (snd (probe P a k s [] w)))))"
    by (simp add: unfold p1 p2)
  have j: "jurisdictions = [[], ''eu'']" by (simp add: jurisdictions_def)
  from j probe_200 [of P a k s jur w] probe_sent [of P a k s jur w] rounds rej
  show ?thesis by blast
qed

theorem detectR2Jurisdiction_first_200_witness:
  "fst (probe (test_platform eu_only) ''acct'' ''AKID'' ''secret'' [] world0) = False \<and>
   fst (probe (test_platform eu_only) ''acct'' ''AKID'' ''secret'' ''eu''
          (snd (probe (test_platform eu_only) ''acct'' ''AKID'' ''secret'' [] world0))) \<and>
   fst (detectR2Jurisdiction (test_platform eu_only) ''acct'' ''AKID'' ''secret'' world0) = ''eu''"
proof -
  have p1: "fst (probe (test_platform eu_only) ''acct'' ''AKID'' ''secret'' [] world0) = False"
    by (simp add: probe_def signRequest_def test_platform_def r2_endpoint_def do_fetch_def
        world0_def eu_only_def sign_with_url)
  have p2: "fst (probe (test_platform eu_only) ''acct'' ''AKID'' ''secret'' ''eu''
          (snd (probe (test_platform eu_only) ''acct'' ''AKID'' ''secret'' [] world0)))"
    by (simp add: probe_def signRequest_def test_platform_def r2_endpoint_def do_fetch_def
        world0_def eu_only_def sign_with_url)
  from detectR2Jurisdiction_first_200
         [of "test_platform eu_only" "''acct''" "''AKID''" "''secret''" "[]" world0] p1 p2
  have "detectR2Jurisdiction (test_platform eu_only) ''acct'' ''AKID'' ''secret'' world0 =
        (''eu'', snd (probe (test_platform eu_only) ''acct'' ''AKID'' ''secret'' ''eu''
          (snd (probe (test_platform eu_only) ''acct'' ''AKID'' ''secret'' [] world0))))"
    by blast
  with p1 p2 show ?thesis by simp
qed


section \<open>Properties of the command line layer\<close>

text \<open>
  Claim C4. \<^const>\<open>resolvePassphrase\<close> looks at the explicit override, then at the
  environment variable \<^verbatim>\<open>CLAWSTASH_PASSPHRASE\<close>, then at the secret store, and returns the
  first that is present, a source being present when it holds a non-empty string,
  whatever the sources after it hold. The secret store is queried at most once, and
  only when the two sources before it are absent. When no source is present the command
  exits with code 1 after an error line and the three remedies: \<^verbatim>\<open>clawstash setup\<close>,
  the environment variable, the flag \<^verbatim>\<open>--passphrase\<close>.
\<close>

theorem resolvePassphrase_precedence:
  "(\<forall>x. p = Some x \<and> x \<noteq> [] \<longrightarrow> resolvePassphrase E p = (Inr x, [])) \<and>
   (\<forall>x. \<not> truthy p \<and> e_passphrase_var E = Some x \<and> x \<noteq> [] \<longrightarrow>
        resolvePassphrase E p = (Inr x, [])) \<and>
   (\<forall>x. \<not> truthy p \<and> \<not> truthy (e_passphrase_var E) \<and> e_keychain E = Some x \<and> x \<noteq> [] \<longrightarrow>
        fst (resolvePassphrase E p) = Inr x \<and>
        count_list (snd (resolvePassphrase E p)) KeychainQuery = 1) \<and>
   (\<not> truthy p \<and> \<not> truthy (e_passphrase_var E) \<and> \<not> truthy (e_keychain E) \<longrightarrow>
        fst (resolvePassphrase E p) = Inl (Exit 1) \<and>
        count_list (snd (resolvePassphrase E p)) KeychainQuery = 1 \<and>
        LogError ''No passphrase found.'' \<in> set (snd (resolvePassphrase E p)) \<and>
        LogInfo ''  1. Save to keychain:  clawstash setup'' \<in> set (snd (resolvePassphrase E p)) \<and>
        LogInfo ''  2. Set env var:       export CLAWSTASH_PASSPHRASE=...''
          \<in> set (snd (resolvePassphrase E p)) \<and>
        LogInfo ''  3. Pass flag:         --passphrase ...'' \<in> set (snd (resolvePassphrase E p))) \<and>
   count_list (snd (resolvePassphrase E p)) KeychainQuery \<le> 1"
proof -
  have flag: "\<forall>x. p = Some x \<and> x \<noteq> [] \<longrightarrow> resolvePassphrase E p = (Inr x, [])"
    by (simp add: resolvePassphrase_def)
  have var: "\<forall>x. \<not> truthy p \<and> e_passphrase_var E = Some x \<and> x \<noteq> [] \<longrightarrow>
        resolvePassphrase E p = (Inr x, [])"
    by (simp add: resolvePassphrase_def)
  have store: "\<forall>x. \<not> truthy p \<and> \<not> truthy (e_passphrase_var E) \<and> e_keychain E = Some x \<and> x \<noteq> [] \<longrightarrow>
        fst (resolvePassphrase E p) = Inr x \<and>
        count_list (snd (resolvePassphrase E p)) KeychainQuery = 1"
    by (simp add: resolvePassphrase_def)
  have none: "\<not> truthy p \<and> \<not> truthy (e_passphrase_var E) \<and> \<not> truthy (e_keychain E) \<longrightarrow>
        fst (resolvePassphrase E p) = Inl (Exit 1) \<and>
        count_list (snd (resolvePassphrase E p)) KeychainQuery = 1 \<and>
        LogError ''No passphrase found.'' \<in> set (snd (resolvePassphrase E p)) \<and>
        LogInfo ''  1. Save to keychain:  clawstash setup'' \<in> set (snd (resolvePassphrase E p)) \<and>
        LogInfo ''  2. Set env var:       export CLAWSTASH_PASSPHRASE=...''
          \<in> set (snd (resolvePassphrase E p)) \<and>
        LogInfo ''  3. Pass flag:         --passphrase ...'' \<in> set (snd (resolvePassphrase E p))"
    by (simp add: resolvePassphrase_def)
  have once: "count_list (snd (resolvePassphrase E p)) KeychainQuery \<le> 1"
    by (simp add: resolvePassphrase_def Let_def)
  from flag var store none once show ?thesis by blast
qed

theorem resolvePassphrase_precedence_witness:
  "resolvePassphrase (test_env (Some ''env-pass'') (Some ''keychain-pass'') (Inr test_summary) None)
      (Some ''flag-pass'') = (Inr ''flag-pass'', []) \<and>
   resolvePassphrase (test_env (Some ''env-pass'') (Some ''keychain-pass'') (Inr test_summary) None)
      None = (Inr ''env-pass'', []) \<and>
   fst (resolvePassphrase (test_env None (Some ''keychain-pass'') (Inr test_summary) None) None) =
      Inr ''keychain-pass'' \<and>
   fst (resolvePassphrase (test_env None None (Inr test_summary) None) None) = Inl (Exit 1)"
  using
    resolvePassphrase_precedence
      [of "Some ''flag-pass''"
          "test_env (Some ''env-pass'') (Some ''keychain-pass'') (Inr test_summary) None"]
    resolvePassphrase_precedence
      [of None "test_env (Some ''env-pass'') (Some ''keychain-pass'') (Inr test_summary) None"]
    resolvePassphrase_precedence
      [of None "test_env None (Some ''keychain-pass'') (Inr test_summary) None"]
    resolvePassphrase_precedence [of None "test_env None None (Inr test_summary) None"]
  by (simp add: test_env_def)

lemma with_own:
  "map_of table name = Some globs \<Longrightarrow> name \<noteq> [] \<Longrightarrow>
   getCategoryIncludes_with table (Some name) = (Inr (Globs globs), [])"
  by (simp add: getCategoryIncludes_with_def)

lemma with_unknown:
  "name \<noteq> [] \<Longrightarrow> name \<notin> set (map fst table) \<Longrightarrow> name \<notin> set object_prototype_names \<Longrightarrow>
   getCategoryIncludes_with table (Some name) =
     (Inl (Exit 1), [LogError (''Unknown category: '' @ name),
                     LogInfo (''Valid categories: '' @ join '', '' (map fst table))])"
  by (simp add: getCategoryIncludes_with_def map_of_eq_None_iff [THEN iffD2])

lemma backup_keys: "map fst backup_map =
  [''config'', ''secrets'', ''workspace'', ''sessions'', ''memory'', ''skills'', ''agents'',
   ''settings'']"
  by (simp add: backup_map_def)

lemma restore_keys: "map fst restore_map =
  [''config'', ''secrets'', ''workspace'', ''sessions'', ''memory'']"
  by (simp add: restore_map_def)

lemma backup_nonempty: "map_of backup_map name = Some globs \<Longrightarrow> name \<noteq> []"
  by (auto simp: backup_map_def split: if_splits)

lemma restore_nonempty: "map_of restore_map name = Some globs \<Longrightarrow> name \<noteq> []"
  by (auto simp: restore_map_def split: if_splits)

text \<open>
  Claim C10, as stated, fails: \<^verbatim>\<open>other\<close> is one of the nine categories of the enumeration
  and has a glob set in neither direction; the lookup exits with code 1 for it.
\<close>

theorem getCategoryIncludes_counterexample:
  "fst (getCategoryIncludes_backup (Some (category_name Other))) = Inl (Exit 1) \<and>
   fst (getCategoryIncludes_restore (Some (category_name Other))) = Inl (Exit 1)"
  by (simp add: getCategoryIncludes_backup_def getCategoryIncludes_restore_def
      getCategoryIncludes_with_def backup_map_def restore_map_def object_prototype_names_def)

text \<open>
  Claim C10, amended. Each direction has a table of its own. For backup the table has the
  eight names \<^verbatim>\<open>config\<close>, \<^verbatim>\<open>secrets\<close>, \<^verbatim>\<open>workspace\<close>, \<^verbatim>\<open>sessions\<close>, \<^verbatim>\<open>memory\<close>,
  \<^verbatim>\<open>skills\<close>, \<^verbatim>\<open>agents\<close>, \<^verbatim>\<open>settings\<close>, and the lookup returns the glob set the table
  gives a name. For restore the lookup returns the glob set of its table for each of
  \<^verbatim>\<open>config\<close>, \<^verbatim>\<open>secrets\<close>, \<^verbatim>\<open>workspace\<close>, \<^verbatim>\<open>sessions\<close>, \<^verbatim>\<open>memory\<close>. Without a name,
  absent or empty, the lookup returns no filter. For a name outside the eight, \<^verbatim>\<open>other\<close>
  among them, that is none of the property names every object inherits, the lookup of
  either direction writes an error line and a line with the names of its table and exits
  with code 1. The statement is silent on what restore does for \<^verbatim>\<open>skills\<close>,
  \<^verbatim>\<open>agents\<close> and \<^verbatim>\<open>settings\<close>, and on the inherited names.
\<close>

theorem getCategoryIncludes_tables:
  "map fst backup_map =
     [''config'', ''secrets'', ''workspace'', ''sessions'', ''memory'', ''skills'', ''agents'',
      ''settings''] \<and>
   (map_of backup_map name = Some globs \<longrightarrow>
      getCategoryIncludes_backup (Some name) = (Inr (Globs globs), [])) \<and>
   map_of restore_map ''config'' = Some [''**/openclaw.json'', ''**/.env''] \<and>
   map_of restore_map ''secrets'' = Some [''**/credentials/**'', ''**/auth/**''] \<and>
   map_of restore_map ''workspace'' = Some [''**/workspace/**''] \<and>
   map_of restore_map ''sessions'' = Some [''**/agents/*/sessions/**''] \<and>
   map_of restore_map ''memory'' =
     Some [''**/agents/*/memory.sqlite'', ''**/agents/*/memory.db''] \<and>
   (name \<in> set [''config'', ''secrets'', ''workspace'', ''sessions'', ''memory''] \<and>
    map_of restore_map name = Some globs \<longrightarrow>
      getCategoryIncludes_restore (Some name) = (Inr (Globs globs), [])) \<and>
   (name \<noteq> [] \<and> name \<notin> set (map fst backup_map) \<and> name \<notin> set object_prototype_names \<longrightarrow>
      getCategoryIncludes_backup (Some name) =
        (Inl (Exit 1),
         [LogError (''Unknown category: '' @ name),
          LogInfo ''Valid categories: config, secrets, workspace, sessions, memory, skills, agents, settings''])) \<and>
   (name \<noteq> [] \<and> name \<notin> set (map fst backup_map) \<and> name \<notin> set object_prototype_names \<longrightarrow>
      getCategoryIncludes_restore (Some name) =
        (Inl (Exit 1),
         [LogError (''Unknown category: '' @ name),
          LogInfo (''Valid categories: '' @ join '', '' (map fst restore_map))])) \<and>
   getCategoryIncludes_backup None = (Inr NoFilter, []) \<and>
   getCategoryIncludes_restore None = (Inr NoFilter, []) \<and>
   getCategoryIncludes_backup (Some []) = (Inr NoFilter, []) \<and>
   getCategoryIncludes_restore (Some []) = (Inr NoFilter, [])"
proof -
  have b: "join '', '' (map fst backup_map) =
      ''config, secrets, workspace, sessions, memory, skills, agents, settings''"
    by (simp add: backup_keys)
  have c2: "map_of backup_map name = Some globs \<longrightarrow>
      getCategoryIncludes_backup (Some name) = (Inr (Globs globs), [])"
    using with_own [of backup_map name globs] backup_nonempty [of name globs]
    by (simp add: getCategoryIncludes_backup_def)
  have r: "map_of restore_map ''config'' = Some [''**/openclaw.json'', ''**/.env'']"
    "map_of restore_map ''secrets'' = Some [''**/credentials/**'', ''**/auth/**'']"
    "map_of restore_map ''workspace'' = Some [''**/workspace/**'']"
    "map_of restore_map ''sessions'' = Some [''**/agents/*/sessions/**'']"
    "map_of restore_map ''memory'' =
       Some [''**/agents/*/memory.sqlite'', ''**/agents/*/memory.db'']"
    by (simp_all add: restore_map_def)
  have c4: "name \<in> set [''config'', ''secrets'', ''workspace'', ''sessions'', ''memory''] \<and>
    map_of restore_map name = Some globs \<longrightarrow>
      getCategoryIncludes_restore (Some name) = (Inr (Globs globs), [])"
    using with_own [of restore_map name globs] restore_nonempty [of name globs]
    by (simp add: getCategoryIncludes_restore_def)
  have c5: "name \<noteq> [] \<and> name \<notin> set (map fst backup_map) \<and> name \<notin> set object_prototype_names \<longrightarrow>
      getCategoryIncludes_backup (Some name) =
        (Inl (Exit 1),
         [LogError (''Unknown category: '' @ name),
          LogInfo ''Valid categories: config, secrets, workspace, sessions, memory, skills, agents, settings''])"
    using with_unknown [of name backup_map]
    by (simp add: getCategoryIncludes_backup_def b)
  have sub: "name \<notin> set (map fst backup_map) \<Longrightarrow> name \<notin> set (map fst restore_map)"
    unfolding backup_keys restore_keys by simp
  have c6: "name \<noteq> [] \<and> name \<notin> set (map fst backup_map) \<and> name \<notin> set object_prototype_names \<longrightarrow>
      getCategoryIncludes_restore (Some name) =
        (Inl (Exit 1),
         [LogError (''Unknown category: '' @ name),
          LogInfo (''Valid categories: '' @ join '', '' (map fst restore_map))])"
    using with_unknown [of name restore_map] sub
    unfolding getCategoryIncludes_restore_def by blast
  have c7: "getCategoryIncludes_backup None = (Inr NoFilter, [])"
    "getCategoryIncludes_restore None = (Inr NoFilter, [])"
    "getCategoryIncludes_backup (Some []) = (Inr NoFilter, [])"
    "getCategoryIncludes_restore (Some []) = (Inr NoFilter, [])"
    by (simp_all add: getCategoryIncludes_backup_def getCategoryIncludes_restore_def
        getCategoryIncludes_with_def)
  from backup_keys c2 r c4 c5 c6 c7 show ?thesis by (intro conjI)
qed

theorem getCategoryIncludes_tables_witness:
  "map_of backup_map ''skills'' = Some [''skills/**'', ''workspace/skills/**''] \<and>
   getCategoryIncludes_backup (Some ''skills'') =
     (Inr (Globs [''skills/**'', ''workspace/skills/**'']), []) \<and>
   getCategoryIncludes_restore (Some ''secrets'') =
     (Inr (Globs [''**/credentials/**'', ''**/auth/**'']), []) \<and>
   fst (getCategoryIncludes_backup (Some ''bogus'')) = Inl (Exit 1) \<and>
   fst (getCategoryIncludes_restore (Some ''bogus'')) = Inl (Exit 1)"
proof -
  have s: "map_of backup_map ''skills'' = Some [''skills/**'', ''workspace/skills/**'']"
    by (simp add: backup_map_def)
  have u: "''bogus'' \<noteq> [] \<and> ''bogus'' \<notin> set (map fst backup_map) \<and>
      ''bogus'' \<notin> set object_prototype_names"
    by (simp add: backup_keys object_prototype_names_def)
  have w1: "getCategoryIncludes_backup (Some ''skills'') =
      (Inr (Globs [''skills/**'', ''workspace/skills/**'']), [])"
    using s getCategoryIncludes_tables [of "''skills''" "[''skills/**'', ''workspace/skills/**'']"]
    by blast
  have "''secrets'' \<in> set [''config'', ''secrets'', ''workspace'', ''sessions'', ''memory'']"
    by simp
  then have w2: "getCategoryIncludes_restore (Some ''secrets'') =
      (Inr (Globs [''**/credentials/**'', ''**/auth/**'']), [])"
    using getCategoryIncludes_tables [of "''secrets''" "[''**/credentials/**'', ''**/auth/**'']"]
    by blast
  have w3: "getCategoryIncludes_backup (Some ''bogus'') =
        (Inl (Exit 1),
         [LogError (''Unknown category: '' @ ''bogus''),
          LogInfo ''Valid categories: config, secrets, workspace, sessions, memory, skills, agents, settings''])"
    using u getCategoryIncludes_tables [of "''bogus''" "[]"] by blast
  have w4: "getCategoryIncludes_restore (Some ''bogus'') =
        (Inl (Exit 1),
         [LogError (''Unknown category: '' @ ''bogus''),
          LogInfo (''Valid categories: '' @ join '', '' (map fst restore_map))])"
    using u getCategoryIncludes_tables [of "''bogus''" "[]"] by blast
  show ?thesis by (simp add: s w1 w2 w3 w4)
qed

text \<open>
  Claim C8. In \<^const>\<open>backupCommand\<close>, when everything up to the backup succeeds, the
  backup returns a summary, the retention policy is due (no dry run, no
  \<^verbatim>\<open>--no-forget\<close>) and \<^verbatim>\<open>forget\<close> fails, the command still returns normally, without
  \<^verbatim>\<open>process.exit\<close> and without an exception: the summary of the backup is reported
  under the header "Backup complete", the failure of the retention policy shows as a
  warning of its spinner, and the command writes no error line and fails no spinner.
\<close>

theorem backupCommand_forget_failure_is_warning:
  assumes cfg: "e_config E = Inr config"
    and pw: "resolvePassphrase E (o_passphrase opts) = (Inr passphrase, t1)"
    and restic: "e_ensureRestic E = None"
    and scan: "e_scan E = Inr True"
    and incl: "getCategoryIncludes_backup (o_only opts) = (Inr includes, t3)"
    and bk: "e_backup E (backup_call_of config opts passphrase includes) = Inr summary"
    and run_forget: "\<not> is_true (o_dryRun opts)" "o_forget opts \<noteq> Some False"
    and fg: "e_forget E (forget_call_of config passphrase) = Some err"
  shows "fst (backupCommand E opts) = Inr () \<and>
         LogHeader ''Backup complete'' \<in> set (snd (backupCommand E opts)) \<and>
         LogKv ''Snapshot'' (take 8 (snapshot_id summary)) (Some ''ok'')
           \<in> set (snd (backupCommand E opts)) \<and>
         CallForget (forget_call_of config passphrase) \<in> set (snd (backupCommand E opts)) \<and>
         SpinnerWarn ''Retention policy failed (backup was successful)''
           \<in> set (snd (backupCommand E opts)) \<and>
         list_all (\<lambda>e. \<not> reports_failure e) (snd (backupCommand E opts))"
proof -
  have quiet1: "list_all (\<lambda>e. \<not> reports_failure e) t1"
    using pw by (auto simp: resolvePassphrase_def Let_def split: if_splits)
  have quiet3: "t3 = []"
    using incl
    by (auto simp: getCategoryIncludes_backup_def getCategoryIncludes_with_def Let_def
        split: if_splits option.splits)
  show ?thesis
    using cfg pw restic scan incl bk run_forget fg quiet1 quiet3
    by (simp add: backupCommand_def run_backup_and_forget_def Let_def)
qed

theorem backupCommand_forget_failure_is_warning_witness:
  "e_forget (test_env None None (Inr test_summary) (Some ''Error: repository is locked''))
     (forget_call_of test_config ''pass'') = Some ''Error: repository is locked'' \<and>
   fst (backupCommand (test_env None None (Inr test_summary) (Some ''Error: repository is locked''))
          test_opts) = Inr () \<and>
   SpinnerWarn ''Retention policy failed (backup was successful)''
     \<in> set (snd (backupCommand
          (test_env None None (Inr test_summary) (Some ''Error: repository is locked''))
          test_opts))"
proof -
  let ?E = "test_env None None (Inr test_summary) (Some ''Error: repository is locked'')"
  have cfg: "e_config ?E = Inr test_config" by (simp add: test_env_def)
  have pw: "resolvePassphrase ?E (o_passphrase test_opts) = (Inr ''pass'', [])"
    by (simp add: resolvePassphrase_def test_opts_def)
  have restic: "e_ensureRestic ?E = None" by (simp add: test_env_def)
  have scan: "e_scan ?E = Inr True" by (simp add: test_env_def)
  have incl: "getCategoryIncludes_backup (o_only test_opts) = (Inr NoFilter, [])"
    by (simp add: getCategoryIncludes_backup_def getCategoryIncludes_with_def test_opts_def)
  have bk: "e_backup ?E (backup_call_of test_config test_opts ''pass'' NoFilter) = Inr test_summary"
    by (simp add: test_env_def)
  have d: "\<not> is_true (o_dryRun test_opts)" by (simp add: test_opts_def)
  have f: "o_forget test_opts \<noteq> Some False" by (simp add: test_opts_def)
  have fg: "e_forget ?E (forget_call_of test_config ''pass'') = Some ''Error: repository is locked''"
    by (simp add: test_env_def)
  from backupCommand_forget_failure_is_warning [OF cfg pw restic scan incl bk d f fg] fg
  show ?thesis by blast
qed


section \<open>Properties of the backup run\<close>

lemma scan_lines_Suc:
  "scan_lines parse lines (Suc i) =
     (case summary_of parse (lines ! i) of
        Some v \<Rightarrow> Some v
      | None \<Rightarrow> scan_lines parse lines i)"
  by (auto simp: summary_of_def split: option.splits sum.splits)

lemma scan_lines_None:
  "(scan_lines parse lines n = None) = (\<forall>i<n. summary_of parse (lines ! i) = None)"
proof (induction n)
  case 0
  show ?case by simp
next
  case (Suc n)
  show ?case
    unfolding scan_lines_Suc using Suc.IH
    by (cases "summary_of parse (lines ! n)") (auto simp: less_Suc_eq)
qed

lemma scan_lines_Some:
  "(scan_lines parse lines n = Some v) =
     (\<exists>i<n. summary_of parse (lines ! i) = Some v \<and>
            (\<forall>j. i < j \<and> j < n \<longrightarrow> summary_of parse (lines ! j) = None))"
proof (induction n)
  case 0
  show ?case by simp
next
  case (Suc n)
  show ?case
  proof (cases "summary_of parse (lines ! n)")
    case None
    have "(\<exists>i<Suc n. summary_of parse (lines ! i) = Some v \<and>
            (\<forall>j. i < j \<and> j < Suc n \<longrightarrow> summary_of parse (lines ! j) = None)) =
          (\<exists>i<n. summary_of parse (lines ! i) = Some v \<and>
            (\<forall>j. i < j \<and> j < n \<longrightarrow> summary_of parse (lines ! j) = None))"
      using None by (auto simp: less_Suc_eq)
    then show ?thesis
      unfolding scan_lines_Suc using None Suc.IH by simp
  next
    case (Some w)
    have "(\<exists>i<Suc n. summary_of parse (lines ! i) = Some v \<and>
            (\<forall>j. i < j \<and> j < Suc n \<longrightarrow> summary_of parse (lines ! j) = None)) = (w = v)"
    proof
      assume "\<exists>i<Suc n. summary_of parse (lines ! i) = Some v \<and>
            (\<forall>j. i < j \<and> j < Suc n \<longrightarrow> summary_of parse (lines ! j) = None)"
      then obtain i where i: "i < Suc n" "summary_of parse (lines ! i) = Some v"
        "\<forall>j. i < j \<and> j < Suc n \<longrightarrow> summary_of parse (lines ! j) = None" by blast
      have "i = n"
      proof (rule ccontr)
        assume "i \<noteq> n"
        with i(1) have "i < n" by simp
        with i(3) have "summary_of parse (lines ! n) = None" by simp
        with Some show False by simp
      qed
      with i(2) Some show "w = v" by simp
    next
      assume "w = v"
      with Some show "\<exists>i<Suc n. summary_of parse (lines ! i) = Some v \<and>
            (\<forall>j. i < j \<and> j < Suc n \<longrightarrow> summary_of parse (lines ! j) = None)"
        by (intro exI [of _ n]) auto
    qed
    then show ?thesis
      unfolding scan_lines_Suc using Some by simp
  qed
qed

lemma scan_lines_last:
  "n \<le> length lines \<Longrightarrow>
   scan_lines parse lines n =
     (case List.map_filter (summary_of parse) (take n lines) of
        [] \<Rightarrow> None
      | v # vs \<Rightarrow> Some (last (v # vs)))"
proof (induction n)
  case 0
  show ?case by (simp add: List.map_filter_simps)
next
  case (Suc n)
  then have n: "n < length lines" by simp
  have t: "take (Suc n) lines = take n lines @ [lines ! n]"
    using n by (simp add: take_Suc_conv_app_nth)
  show ?case
    unfolding scan_lines_Suc t using Suc.IH n
    by (cases "summary_of parse (lines ! n)")
       (auto simp: List.map_filter_def split: list.splits)
qed

text \<open>
  Claim C1. When the engine has run and written its output, \<^const>\<open>backup\<close> splits the
  trimmed output at the line feeds and returns the value of the last line that parses as
  JSON and carries \<^verbatim>\<open>message_type == "summary"\<close>: the line at some index \<open>i\<close>
  qualifies and none after it does, whatever stands before it, progress lines and
  unparsable lines included. When no line qualifies it fails with the error "No backup
  summary found" (\<^const>\<open>NoSummary\<close>).
\<close>

theorem backup_returns_last_summary:
  assumes "runResticRaw (backup_args sourceDir options) 600000 = Inr output"
  shows "backup parse runResticRaw sourceDir options =
           (case List.map_filter (summary_of parse) (split_newline (trim output)) of
              [] \<Rightarrow> Inl NoSummary
            | v # vs \<Rightarrow> Inr (last (v # vs))) \<and>
         (backup parse runResticRaw sourceDir options = Inr summary) =
           (\<exists>i < length (split_newline (trim output)).
              summary_of parse (split_newline (trim output) ! i) = Some summary \<and>
              (\<forall>j. i < j \<and> j < length (split_newline (trim output)) \<longrightarrow>
                 summary_of parse (split_newline (trim output) ! j) = None)) \<and>
         (backup parse runResticRaw sourceDir options = Inl NoSummary) =
           (\<forall>i < length (split_newline (trim output)).
              summary_of parse (split_newline (trim output) ! i) = None)"
proof -
  let ?lines = "split_newline (trim output)"
  have b: "backup parse runResticRaw sourceDir options =
      (case scan_lines parse ?lines (length ?lines) of
         Some summary \<Rightarrow> Inr summary | None \<Rightarrow> Inl NoSummary)"
    using assms by (simp add: backup_def Let_def)
  have 1: "backup parse runResticRaw sourceDir options =
           (case List.map_filter (summary_of parse) ?lines of
              [] \<Rightarrow> Inl NoSummary
            | v # vs \<Rightarrow> Inr (last (v # vs)))"
    unfolding b using scan_lines_last [of "length ?lines" ?lines parse]
    by (simp split: list.splits)
  have 2: "(backup parse runResticRaw sourceDir options = Inr summary) =
      (scan_lines parse ?lines (length ?lines) = Some summary)"
    unfolding b by (simp split: option.splits)
  have 3: "(backup parse runResticRaw sourceDir options = Inl NoSummary) =
      (scan_lines parse ?lines (length ?lines) = None)"
    unfolding b by (simp split: option.splits)
  from 1 2 [unfolded scan_lines_Some] 3 [unfolded scan_lines_None]
  show ?thesis by (intro conjI)
qed

theorem backup_returns_last_summary_witness:
  "backup sample_parse (\<lambda>args timeout. Inr sample_output) ''/home/user/.openclaw'' None =
     Inr (JObj [(''message_type'', JStr ''summary''), (''snapshot_id'', JStr ''aaaa1111'')]) \<and>
   backup sample_parse (\<lambda>args timeout. Inr sample_output_without_summary)
     ''/home/user/.openclaw'' None = Inl NoSummary"
proof -
  have l1: "split_newline (trim sample_output) =
      [status_line, ''open repository'', summary_line ''aaaa1111'']"
    by (simp add: sample_output_def trim_def js_whitespace_def status_line_def
        summary_line_def quoted_def)
  have l2: "split_newline (trim sample_output_without_summary) = [status_line, ''null'']"
    by (simp add: sample_output_without_summary_def trim_def js_whitespace_def status_line_def
        quoted_def)
  have p1: "summary_of sample_parse status_line = None"
    by (simp add: summary_of_def sample_parse_def)
  have p2: "summary_of sample_parse ''open repository'' = None"
    by (simp add: summary_of_def sample_parse_def status_line_def summary_line_def quoted_def)
  have p3: "summary_of sample_parse (summary_line ''aaaa1111'') =
      Some (JObj [(''message_type'', JStr ''summary''), (''snapshot_id'', JStr ''aaaa1111'')])"
    by (simp add: summary_of_def sample_parse_def status_line_def summary_line_def quoted_def)
  have p4: "summary_of sample_parse ''null'' = None"
    by (simp add: summary_of_def sample_parse_def status_line_def summary_line_def quoted_def)
  have r1: "(\<lambda>args timeout. Inr sample_output :: string + string)
      (backup_args ''/home/user/.openclaw'' None) 600000 = Inr sample_output"
    by simp
  have r2: "(\<lambda>args timeout. Inr sample_output_without_summary :: string + string)
      (backup_args ''/home/user/.openclaw'' None) 600000 = Inr sample_output_without_summary"
    by simp
  from backup_returns_last_summary [OF r1, of sample_parse]
    backup_returns_last_summary [OF r2, of sample_parse]
  show ?thesis
    by (simp add: l1 l2 p1 p2 p3 p4 List.map_filter_simps)
qed


section \<open>Properties of the snapshot resolver\<close>

lemma distance_range:
  "(\<exists>d. distance dp t s = Num d) \<or> distance dp t s = PosInf \<or> distance dp t s = NaN"
  by (cases "js_sub (date_time dp (sn_time s)) t") (simp_all add: distance_def)

lemma js_lt_Num_bound:
  "bd = PosInf \<or> (\<exists>e. bd = Num e) \<Longrightarrow> js_lt (Num d) bd = (\<forall>e. bd = Num e \<longrightarrow> d < e)"
  by auto

lemma js_lt_not_finite:
  "bd = PosInf \<or> (\<exists>e. bd = Num e) \<Longrightarrow> x = PosInf \<or> x = NaN \<Longrightarrow> \<not> js_lt x bd"
  by auto

lemma closest_acc:
  "bd = PosInf \<or> (\<exists>e. bd = Num e) \<Longrightarrow> closest dp t xs best bd = r \<Longrightarrow>
   (r = best \<and> (\<forall>s \<in> set xs. \<forall>ds. distance dp t s = Num ds \<longrightarrow> (\<exists>d. bd = Num d \<and> d \<le> ds))) \<or>
   (\<exists>pre b post d. xs = pre @ b # post \<and> r = Some b \<and> distance dp t b = Num d \<and>
      (\<forall>e. bd = Num e \<longrightarrow> d < e) \<and>
      (\<forall>s \<in> set pre. \<forall>ds. distance dp t s = Num ds \<longrightarrow> d < ds) \<and>
      (\<forall>s \<in> set post. \<forall>ds. distance dp t s = Num ds \<longrightarrow> d \<le> ds))"
proof (induction xs arbitrary: best bd)
  case Nil
  then show ?case by simp
next
  case (Cons x xs)
  have step: "closest dp t (x # xs) best bd =
      (if js_lt (distance dp t x) bd then closest dp t xs (Some x) (distance dp t x)
       else closest dp t xs best bd)"
    by (simp add: distance_def Let_def)
  show ?case
  proof (cases "js_lt (distance dp t x) bd")
    case True
    with distance_range [of dp t x] js_lt_not_finite [OF Cons.prems(1)]
    obtain dx where dx: "distance dp t x = Num dx" by blast
    from True dx have small: "\<forall>e. bd = Num e \<longrightarrow> dx < e"
      using js_lt_Num_bound [OF Cons.prems(1)] by simp
    from Cons.prems(2) True dx have run: "closest dp t xs (Some x) (Num dx) = r"
      by (simp add: step del: closest.simps)
    have "Num dx = PosInf \<or> (\<exists>e. Num dx = Num e)" by simp
    from Cons.IH [OF this run] show ?thesis
    proof
      assume a: "r = Some x \<and> (\<forall>s \<in> set xs. \<forall>ds. distance dp t s = Num ds \<longrightarrow>
          (\<exists>d. Num dx = Num d \<and> d \<le> ds))"
      have "x # xs = [] @ x # xs" by simp
      moreover have "\<forall>s \<in> set xs. \<forall>ds. distance dp t s = Num ds \<longrightarrow> dx \<le> ds"
        using a by simp
      ultimately show ?thesis using a dx small by (intro disjI2 exI [of _ "[]"]) auto
    next
      assume "\<exists>pre b post d. xs = pre @ b # post \<and> r = Some b \<and> distance dp t b = Num d \<and>
        (\<forall>e. Num dx = Num e \<longrightarrow> d < e) \<and>
        (\<forall>s \<in> set pre. \<forall>ds. distance dp t s = Num ds \<longrightarrow> d < ds) \<and>
        (\<forall>s \<in> set post. \<forall>ds. distance dp t s = Num ds \<longrightarrow> d \<le> ds)"
      then obtain pre b post d where h: "xs = pre @ b # post" "r = Some b"
        "distance dp t b = Num d" "d < dx"
        "\<forall>s \<in> set pre. \<forall>ds. distance dp t s = Num ds \<longrightarrow> d < ds"
        "\<forall>s \<in> set post. \<forall>ds. distance dp t s = Num ds \<longrightarrow> d \<le> ds" by auto
      have "x # xs = (x # pre) @ b # post" using h(1) by simp
      moreover have "\<forall>s \<in> set (x # pre). \<forall>ds. distance dp t s = Num ds \<longrightarrow> d < ds"
        using h(4,5) dx by simp
      moreover have "\<forall>e. bd = Num e \<longrightarrow> d < e"
        using small h(4) by auto
      ultimately show ?thesis using h(2,3,6) by blast
    qed
  next
    case False
    have far: "\<forall>ds. distance dp t x = Num ds \<longrightarrow> (\<exists>e. bd = Num e \<and> e \<le> ds)"
    proof (intro allI impI)
      fix ds assume d: "distance dp t x = Num ds"
      with False have "\<not> (\<forall>e. bd = Num e \<longrightarrow> ds < e)"
        using js_lt_Num_bound [OF Cons.prems(1), of ds] by simp
      then show "\<exists>e. bd = Num e \<and> e \<le> ds" by auto
    qed
    from Cons.prems(2) False have run: "closest dp t xs best bd = r"
      by (simp add: step del: closest.simps)
    from Cons.IH [OF Cons.prems(1) run] show ?thesis
    proof
      assume "r = best \<and> (\<forall>s \<in> set xs. \<forall>ds. distance dp t s = Num ds \<longrightarrow>
          (\<exists>d. bd = Num d \<and> d \<le> ds))"
      with far show ?thesis by simp
    next
      assume "\<exists>pre b post d. xs = pre @ b # post \<and> r = Some b \<and> distance dp t b = Num d \<and>
        (\<forall>e. bd = Num e \<longrightarrow> d < e) \<and>
        (\<forall>s \<in> set pre. \<forall>ds. distance dp t s = Num ds \<longrightarrow> d < ds) \<and>
        (\<forall>s \<in> set post. \<forall>ds. distance dp t s = Num ds \<longrightarrow> d \<le> ds)"
      then obtain pre b post d where h: "xs = pre @ b # post" "r = Some b"
        "distance dp t b = Num d" "\<forall>e. bd = Num e \<longrightarrow> d < e"
        "\<forall>s \<in> set pre. \<forall>ds. distance dp t s = Num ds \<longrightarrow> d < ds"
        "\<forall>s \<in> set post. \<forall>ds. distance dp t s = Num ds \<longrightarrow> d \<le> ds" by blast
      have "\<forall>ds. distance dp t x = Num ds \<longrightarrow> d < ds"
        using far h(4) by fastforce
      then have "\<forall>s \<in> set (x # pre). \<forall>ds. distance dp t s = Num ds \<longrightarrow> d < ds"
        using h(5) by simp
      moreover have "x # xs = (x # pre) @ b # post" using h(1) by simp
      ultimately show ?thesis using h(2,3,4,6) by blast
    qed
  qed
qed

lemma closest_first_minimum:
  "(closest dp t xs None PosInf = None) = (\<forall>s \<in> set xs. \<forall>d. distance dp t s \<noteq> Num d)"
  "closest dp t xs None PosInf = Some b \<Longrightarrow>
     \<exists>pre post d. xs = pre @ b # post \<and> distance dp t b = Num d \<and>
       (\<forall>s \<in> set pre. \<forall>ds. distance dp t s = Num ds \<longrightarrow> d < ds) \<and>
       (\<forall>s \<in> set post. \<forall>ds. distance dp t s = Num ds \<longrightarrow> d \<le> ds)"
proof -
  have inv: "PosInf = PosInf \<or> (\<exists>e. PosInf = Num e)" by simp
  show "(closest dp t xs None PosInf = None) = (\<forall>s \<in> set xs. \<forall>d. distance dp t s \<noteq> Num d)"
  proof
    assume "closest dp t xs None PosInf = None"
    from closest_acc [OF inv this] show "\<forall>s \<in> set xs. \<forall>d. distance dp t s \<noteq> Num d"
      by auto
  next
    assume a: "\<forall>s \<in> set xs. \<forall>d. distance dp t s \<noteq> Num d"
    show "closest dp t xs None PosInf = None"
    proof (rule ccontr)
      assume "closest dp t xs None PosInf \<noteq> None"
      then obtain b where "closest dp t xs None PosInf = Some b" by auto
      from closest_acc [OF inv this] obtain pre post d where
        "xs = pre @ b # post" "distance dp t b = Num d" by auto
      with a show False by auto
    qed
  qed
  show "closest dp t xs None PosInf = Some b \<Longrightarrow>
     \<exists>pre post d. xs = pre @ b # post \<and> distance dp t b = Num d \<and>
       (\<forall>s \<in> set pre. \<forall>ds. distance dp t s = Num ds \<longrightarrow> d < ds) \<and>
       (\<forall>s \<in> set post. \<forall>ds. distance dp t s = Num ds \<longrightarrow> d \<le> ds)"
    using closest_acc [OF inv, of dp t xs None "Some b"] by auto
qed



lemma decimal_nines_acc:
  "foldl (\<lambda>a c. 10 * a + digit_value c) a (replicate n CHR ''9'') + 1 = (a + 1) * 10 ^ n"
proof (induction n arbitrary: a)
  case 0
  show ?case by simp
next
  case (Suc n)
  have d9: "digit_value CHR ''9'' = 9" by (simp add: digit_value_def)
  have "foldl (\<lambda>a c. 10 * a + digit_value c) a (replicate (Suc n) CHR ''9'') + 1 =
        foldl (\<lambda>a c. 10 * a + digit_value c) (10 * a + 9) (replicate n CHR ''9'') + 1"
    by (simp add: d9)
  also have "\<dots> = (10 * a + 9 + 1) * 10 ^ n" by (rule Suc.IH)
  also have "\<dots> = (a + 1) * 10 ^ Suc n" by (simp add: algebra_simps)
  finally show ?case .
qed

lemma decimal_nines: "int (decimal_value (replicate n CHR ''9'')) = 10 ^ n - 1"
proof -
  have "decimal_value (replicate n CHR ''9'') + 1 = 10 ^ n"
    using decimal_nines_acc [of 0 n] by (simp add: decimal_value_def)
  then have "int (decimal_value (replicate n CHR ''9'') + 1) = int (10 ^ n)"
    by (rule arg_cong)
  then show ?thesis by simp
qed

lemma round_double_exact: "\<bar>x\<bar> < 2 ^ 53 \<Longrightarrow> round_double x = Num x"
  by (simp add: round_double_def)

lemma round_double_overflow: "2 ^ 1024 \<le> x \<Longrightarrow> round_double x = PosInf"
  by (simp add: round_double_def)

lemma multiplier_positive: "map_of multipliers u = Some m \<Longrightarrow> 0 < m"
  by (auto simp: multipliers_def split: if_splits)

lemma digit_space: "\<not> is_digit CHR '' ''"
  by (simp add: is_digit_def)

lemma match_relative_canonical:
  assumes "ds \<noteq> []" "\<forall>c \<in> set ds. is_digit c" "u \<in> set units" "pl = [] \<or> pl = ''s''"
  shows "match_relative (ds @ '' '' @ u @ pl @ '' ago'') = Some (ds, u)"
proof -
  have tw: "takeWhile is_digit (ds @ '' '' @ u @ pl @ '' ago'') = ds"
    using assms(2) by (simp add: takeWhile_append2 digit_space)
  have dw: "dropWhile is_digit (ds @ '' '' @ u @ pl @ '' ago'') = '' '' @ u @ pl @ '' ago''"
    using assms(2) by (simp add: dropWhile_append2 digit_space)
  from assms(3) have "u = ''minute'' \<or> u = ''hour'' \<or> u = ''day'' \<or> u = ''week'' \<or> u = ''month''"
    by (simp add: units_def)
  with assms(1,4) show ?thesis
    unfolding match_relative_def tw dw
    by (elim disjE) (simp_all add: js_whitespace_def units_def lower_def Let_def)
qed

lemma target_relative_exact:
  assumes "ds \<noteq> []" "list_all is_digit ds" "u \<in> set units" "pl = [] \<or> pl = ''s''"
    and m: "map_of multipliers u = Some m"
    and small: "int (decimal_value ds) * m < 2 ^ 53"
    and near: "\<bar>now - int (decimal_value ds) * m\<bar> < 2 ^ 53"
  shows "target_time date_parse now (ds @ '' '' @ u @ pl @ '' ago'') =
           Some (Num (now - int (decimal_value ds) * m))"
proof -
  have mr: "match_relative (ds @ '' '' @ u @ pl @ '' ago'') = Some (ds, u)"
    using assms(1-4) by (intro match_relative_canonical) (simp_all add: list_all_iff)
  have pos: "0 < m" using m by (rule multiplier_positive)
  have n0: "0 \<le> int (decimal_value ds)" by simp
  have "int (decimal_value ds) * 1 \<le> int (decimal_value ds) * m"
    using pos n0 by (intro mult_left_mono) simp_all
  with small have n: "\<bar>int (decimal_value ds)\<bar> < 2 ^ 53" by simp
  have p: "\<bar>int (decimal_value ds) * m\<bar> < 2 ^ 53"
    using small pos n0 by (simp add: abs_mult)
  show ?thesis
    unfolding target_time_def mr
    by (simp add: m parseInt_def round_double_exact [OF n] round_double_exact [OF p]
        round_double_exact [OF near])
qed

lemma target_relative_overflow:
  assumes "ds \<noteq> []" "list_all is_digit ds" "u \<in> set units" "pl = [] \<or> pl = ''s''"
    and big: "2 ^ 1024 \<le> int (decimal_value ds)"
  shows "target_time date_parse now (ds @ '' '' @ u @ pl @ '' ago'') = Some NegInf"
proof -
  have mr: "match_relative (ds @ '' '' @ u @ pl @ '' ago'') = Some (ds, u)"
    using assms(1-4) by (intro match_relative_canonical) (simp_all add: list_all_iff)
  from assms(3) obtain m where m: "map_of multipliers u = Some m"
    by (auto simp: units_def multipliers_def)
  have pos: "0 < m" using m by (rule multiplier_positive)
  show ?thesis
    unfolding target_time_def mr
    using pos by (simp add: m parseInt_def round_double_overflow [OF big])
qed

lemma distance_facts:
  "date_parse (sn_time s) = None \<Longrightarrow> distance date_parse T s = NaN"
  "date_parse (sn_time s) = Some ts \<Longrightarrow> \<bar>ts - t\<bar> < 2 ^ 53 \<Longrightarrow>
     distance date_parse (Num t) s = Num \<bar>ts - t\<bar>"
  "date_parse (sn_time s) = Some ts \<Longrightarrow> distance date_parse NegInf s = PosInf"
  by (simp_all add: distance_def date_time_def round_double_exact)


text \<open>
  Claim C2, as stated, fails: for a list that is not empty, and whose times all parse,
  the resolver returns \<^verbatim>\<open>null\<close> when the amount of the relative phrase is so large that
  \<^verbatim>\<open>parseInt\<close> gives \<^verbatim>\<open>Infinity\<close>. The target is then \<^verbatim>\<open>-Infinity\<close>, every
  difference is \<^verbatim>\<open>Infinity\<close>, and none is less than the initial \<^verbatim>\<open>bestDiff\<close>.
\<close>

theorem findSnapshotByTime_huge_amount_counterexample:
  "findSnapshotByTime sample_date 1767225600000
     [snapshot_at ''snap1'' ''2025-12-31T00:00:00.000Z'']
     (replicate 400 CHR ''9'' @ '' days ago'') = (Inr None, [])"
proof -
  have nines: "list_all is_digit (replicate 400 CHR ''9'')"
    by (simp add: list_all_iff is_digit_def)
  have "(2::int) ^ 1024 \<le> 10 ^ 400 - 1" by simp
  then have big: "(2::int) ^ 1024 \<le> int (decimal_value (replicate 400 CHR ''9''))"
    by (simp only: decimal_nines [of 400])
  have phrase: "replicate 400 CHR ''9'' @ '' days ago'' =
      replicate 400 CHR ''9'' @ '' '' @ ''day'' @ ''s'' @ '' ago''"
    by simp
  have target: "target_time sample_date 1767225600000
      (replicate 400 CHR ''9'' @ '' days ago'') = Some NegInf"
    unfolding phrase
    by (rule target_relative_overflow [OF _ nines _ _ big]) (simp_all add: units_def)
  have far: "distance sample_date NegInf (snapshot_at ''snap1'' ''2025-12-31T00:00:00.000Z'') =
      PosInf"
    by (rule distance_facts(3) [of _ _ 1767139200000])
       (simp add: snapshot_at_def sample_date_def)
  show ?thesis
    using far by (simp add: findSnapshotByTime_def target distance_def Let_def)
qed

text \<open>
  Claim C2, amended. The resolver computes one target instant, in double arithmetic. For
  a phrase "\<open>n\<close> unit ago" or "\<open>n\<close> units ago" it is the current time less \<open>n\<close> times
  the fixed multiplier of the unit, a month being 30 days, that is 2,592,000 seconds;
  this is exact while the product and the result stay below \<open>2\<^sup>5\<^sup>3\<close>, and it is
  \<^verbatim>\<open>-Infinity\<close> for an amount of \<open>2\<^sup>1\<^sup>0\<^sup>2\<^sup>4\<close> or more. For a text that is no relative
  phrase it is the instant the text parses to as a date, and when the text does not parse
  the resolver writes an error line and exits with code 1. The difference of a snapshot is
  the absolute difference between its time and the target as the doubles give it: the
  exact one while it stays below \<open>2\<^sup>5\<^sup>3\<close>, \<^verbatim>\<open>NaN\<close> for a time that does not parse,
  \<^verbatim>\<open>Infinity\<close> against the target \<^verbatim>\<open>-Infinity\<close>. The resolver returns the first-listed
  snapshot of least difference among those whose difference is a finite number: every
  snapshot listed before the result is strictly farther, every snapshot listed after it
  is at least as far (the comparison is strict, so the earliest-listed wins a tie). It
  returns \<^verbatim>\<open>null\<close> exactly when no snapshot has a finite difference, as for the empty
  list.
\<close>

theorem findSnapshotByTime_first_closest:
  "(\<forall>m. ds \<noteq> [] \<and> list_all is_digit ds \<and> u \<in> set units \<and> (pl = [] \<or> pl = ''s'') \<and>
        map_of multipliers u = Some m \<and>
        int (decimal_value ds) * m < 2 ^ 53 \<and>
        \<bar>now - int (decimal_value ds) * m\<bar> < 2 ^ 53 \<longrightarrow>
      target_time date_parse now (ds @ '' '' @ u @ pl @ '' ago'') =
        Some (Num (now - int (decimal_value ds) * m))) \<and>
   (ds \<noteq> [] \<and> list_all is_digit ds \<and> u \<in> set units \<and> (pl = [] \<or> pl = ''s'') \<and>
    2 ^ 1024 \<le> int (decimal_value ds) \<longrightarrow>
      target_time date_parse now (ds @ '' '' @ u @ pl @ '' ago'') = Some NegInf) \<and>
   map_of multipliers ''month'' = Some (30 * 24 * 60 * 60 * 1000) \<and>
   map_of multipliers ''month'' = Some (2592000 * 1000) \<and>
   (match_relative timeStr = None \<longrightarrow>
      target_time date_parse now timeStr =
        (case date_parse timeStr of None \<Rightarrow> None | Some t \<Rightarrow> Some (Num t))) \<and>
   (target_time date_parse now timeStr = None \<longrightarrow>
      findSnapshotByTime date_parse now snapshots timeStr =
        (Inl (Exit 1), [LogError (''Cannot parse time: '' @ timeStr)])) \<and>
   (\<forall>s. date_parse (sn_time s) = None \<longrightarrow> distance date_parse target s = NaN) \<and>
   (\<forall>s ts t. date_parse (sn_time s) = Some ts \<and> \<bar>ts - t\<bar> < 2 ^ 53 \<longrightarrow>
      distance date_parse (Num t) s = Num \<bar>ts - t\<bar>) \<and>
   (\<forall>s ts. date_parse (sn_time s) = Some ts \<longrightarrow> distance date_parse NegInf s = PosInf) \<and>
   (\<forall>targetTime. target_time date_parse now timeStr = Some targetTime \<longrightarrow>
      (\<exists>r. findSnapshotByTime date_parse now snapshots timeStr = (Inr r, []) \<and>
           ((r = None) =
              (\<forall>s \<in> set snapshots. \<forall>d. distance date_parse targetTime s \<noteq> Num d)) \<and>
           (snapshots = [] \<longrightarrow> r = None) \<and>
           (\<forall>best. r = Some best \<longrightarrow>
              (\<exists>before after d.
                 snapshots = before @ best # after \<and>
                 distance date_parse targetTime best = Num d \<and>
                 (\<forall>s \<in> set before. \<forall>ds. distance date_parse targetTime s = Num ds \<longrightarrow> d < ds) \<and>
                 (\<forall>s \<in> set after. \<forall>ds. distance date_parse targetTime s = Num ds \<longrightarrow> d \<le> ds)))))"
proof -
  have rel: "\<forall>m. ds \<noteq> [] \<and> list_all is_digit ds \<and> u \<in> set units \<and> (pl = [] \<or> pl = ''s'') \<and>
        map_of multipliers u = Some m \<and>
        int (decimal_value ds) * m < 2 ^ 53 \<and>
        \<bar>now - int (decimal_value ds) * m\<bar> < 2 ^ 53 \<longrightarrow>
      target_time date_parse now (ds @ '' '' @ u @ pl @ '' ago'') =
        Some (Num (now - int (decimal_value ds) * m))"
    using target_relative_exact [of ds u pl _ now date_parse] by blast
  have inf: "ds \<noteq> [] \<and> list_all is_digit ds \<and> u \<in> set units \<and> (pl = [] \<or> pl = ''s'') \<and>
    2 ^ 1024 \<le> int (decimal_value ds) \<longrightarrow>
      target_time date_parse now (ds @ '' '' @ u @ pl @ '' ago'') = Some NegInf"
    using target_relative_overflow [of ds u pl date_parse now] by blast
  have month: "map_of multipliers ''month'' = Some (30 * 24 * 60 * 60 * 1000)"
    "map_of multipliers ''month'' = Some (2592000 * 1000)"
    by (simp_all add: multipliers_def)
  have abs: "match_relative timeStr = None \<longrightarrow>
      target_time date_parse now timeStr =
        (case date_parse timeStr of None \<Rightarrow> None | Some t \<Rightarrow> Some (Num t))"
    by (simp add: target_time_def date_time_def split: option.splits)
  have fail: "target_time date_parse now timeStr = None \<longrightarrow>
      findSnapshotByTime date_parse now snapshots timeStr =
        (Inl (Exit 1), [LogError (''Cannot parse time: '' @ timeStr)])"
    by (simp add: findSnapshotByTime_def)
  have d1: "\<forall>s. date_parse (sn_time s) = None \<longrightarrow> distance date_parse target s = NaN"
    using distance_facts(1) by blast
  have d2: "\<forall>s ts t. date_parse (sn_time s) = Some ts \<and> \<bar>ts - t\<bar> < 2 ^ 53 \<longrightarrow>
      distance date_parse (Num t) s = Num \<bar>ts - t\<bar>"
    using distance_facts(2) by blast
  have d3: "\<forall>s ts. date_parse (sn_time s) = Some ts \<longrightarrow> distance date_parse NegInf s = PosInf"
    using distance_facts(3) by blast
  have pick: "\<forall>targetTime. target_time date_parse now timeStr = Some targetTime \<longrightarrow>
      (\<exists>r. findSnapshotByTime date_parse now snapshots timeStr = (Inr r, []) \<and>
           ((r = None) =
              (\<forall>s \<in> set snapshots. \<forall>d. distance date_parse targetTime s \<noteq> Num d)) \<and>
           (snapshots = [] \<longrightarrow> r = None) \<and>
           (\<forall>best. r = Some best \<longrightarrow>
              (\<exists>before after d.
                 snapshots = before @ best # after \<and>
                 distance date_parse targetTime best = Num d \<and>
                 (\<forall>s \<in> set before. \<forall>ds. distance date_parse targetTime s = Num ds \<longrightarrow> d < ds) \<and>
                 (\<forall>s \<in> set after. \<forall>ds. distance date_parse targetTime s = Num ds \<longrightarrow> d \<le> ds))))"
  proof (intro allI impI)
    fix targetTime
    assume t: "target_time date_parse now timeStr = Some targetTime"
    let ?r = "closest date_parse targetTime snapshots None PosInf"
    have 1: "findSnapshotByTime date_parse now snapshots timeStr = (Inr ?r, [])"
      using t by (simp add: findSnapshotByTime_def)
    have 2: "(?r = None) =
        (\<forall>s \<in> set snapshots. \<forall>d. distance date_parse targetTime s \<noteq> Num d)"
      by (rule closest_first_minimum(1))
    have 3: "snapshots = [] \<longrightarrow> ?r = None" by simp
    have 4: "\<forall>best. ?r = Some best \<longrightarrow>
              (\<exists>before after d.
                 snapshots = before @ best # after \<and>
                 distance date_parse targetTime best = Num d \<and>
                 (\<forall>s \<in> set before. \<forall>ds. distance date_parse targetTime s = Num ds \<longrightarrow> d < ds) \<and>
                 (\<forall>s \<in> set after. \<forall>ds. distance date_parse targetTime s = Num ds \<longrightarrow> d \<le> ds))"
      using closest_first_minimum(2) [of date_parse targetTime snapshots] by blast
    from 1 2 3 4 show "\<exists>r. findSnapshotByTime date_parse now snapshots timeStr = (Inr r, []) \<and>
           ((r = None) =
              (\<forall>s \<in> set snapshots. \<forall>d. distance date_parse targetTime s \<noteq> Num d)) \<and>
           (snapshots = [] \<longrightarrow> r = None) \<and>
           (\<forall>best. r = Some best \<longrightarrow>
              (\<exists>before after d.
                 snapshots = before @ best # after \<and>
                 distance date_parse targetTime best = Num d \<and>
                 (\<forall>s \<in> set before. \<forall>ds. distance date_parse targetTime s = Num ds \<longrightarrow> d < ds) \<and>
                 (\<forall>s \<in> set after. \<forall>ds. distance date_parse targetTime s = Num ds \<longrightarrow> d \<le> ds)))"
      by (intro exI [of _ ?r] conjI)
  qed
  from rel inf month abs fail d1 d2 d3 pick show ?thesis by (intro conjI)
qed

theorem findSnapshotByTime_first_closest_witness:
  "target_time sample_date 1767225600000 ''2 hours ago'' = Some (Num 1767218400000) \<and>
   fst (findSnapshotByTime sample_date 1767225600000
          [snapshot_at ''snap1'' ''2025-12-29T00:00:00.000Z'',
           snapshot_at ''snap2'' ''2025-12-31T00:00:00.000Z'',
           snapshot_at ''snap3'' ''2025-12-31T23:00:00.000Z''] ''2 hours ago'') =
     Inr (Some (snapshot_at ''snap3'' ''2025-12-31T23:00:00.000Z'')) \<and>
   fst (findSnapshotByTime sample_date 1767225600000
          [snapshot_at ''snap1'' ''2025-12-31T00:00:00.000Z'',
           snapshot_at ''snap2'' ''2026-01-01T00:00:00.000Z''] ''12 hours ago'') =
     Inr (Some (snapshot_at ''snap1'' ''2025-12-31T00:00:00.000Z''))"
proof -
  have m: "map_of multipliers ''hour'' = Some 3600000"
    by (simp add: multipliers_def)
  have v2: "decimal_value ''2'' = 2" and v12: "decimal_value ''12'' = 12"
    by (simp_all add: decimal_value_def digit_value_def)
  have h2: "''2'' \<noteq> [] \<and> list_all is_digit ''2'' \<and> ''hour'' \<in> set units \<and>
      (''s'' = [] \<or> ''s'' = ''s'') \<and> map_of multipliers ''hour'' = Some 3600000 \<and>
      int (decimal_value ''2'') * 3600000 < 2 ^ 53 \<and>
      \<bar>1767225600000 - int (decimal_value ''2'') * 3600000\<bar> < 2 ^ 53"
    by (simp add: is_digit_def units_def m v2)
  have h12: "''12'' \<noteq> [] \<and> list_all is_digit ''12'' \<and> ''hour'' \<in> set units \<and>
      (''s'' = [] \<or> ''s'' = ''s'') \<and> map_of multipliers ''hour'' = Some 3600000 \<and>
      int (decimal_value ''12'') * 3600000 < 2 ^ 53 \<and>
      \<bar>1767225600000 - int (decimal_value ''12'') * 3600000\<bar> < 2 ^ 53"
    by (simp add: is_digit_def units_def m v12)
  have t2: "target_time sample_date 1767225600000 ''2 hours ago'' = Some (Num 1767218400000)"
    using findSnapshotByTime_first_closest
      [of "''2''" "''hour''" "''s''" 1767225600000 sample_date, THEN conjunct1, rule_format, OF h2]
    by (simp add: v2)
  have t12: "target_time sample_date 1767225600000 ''12 hours ago'' = Some (Num 1767182400000)"
    using findSnapshotByTime_first_closest
      [of "''12''" "''hour''" "''s''" 1767225600000 sample_date, THEN conjunct1, rule_format, OF h12]
    by (simp add: v12)
  have d: "date_time sample_date ''2025-12-29T00:00:00.000Z'' = Num 1766966400000"
    "date_time sample_date ''2025-12-31T00:00:00.000Z'' = Num 1767139200000"
    "date_time sample_date ''2025-12-31T23:00:00.000Z'' = Num 1767222000000"
    "date_time sample_date ''2026-01-01T00:00:00.000Z'' = Num 1767225600000"
    by (simp_all add: sample_date_def date_time_def)
  have s: "sn_time (snapshot_at n t) = t" for n t
    by (simp add: snapshot_at_def)
  show ?thesis
    by (simp add: findSnapshotByTime_def t2 t12 s d Let_def round_double_def)
qed

end
